theory Spec2Isabelle
  imports Complex_Main "HOL-Library.AList"
begin

section \<open>Python strings\<close>

text \<open>
  A Python \<open>str\<close> is modelled as an Isabelle \<open>string\<close>, each \<open>char\<close> read as the
  code point of that number (Latin-1, U+0000 to U+00FF). Within this range
  \<open>str.strip\<close>, \<open>str.lower\<close>, the regular-expression classes \<open>\s\<close> and \<open>\d\<close> and
  the grammar of \<open>float\<close> are modelled exactly. The euro sign (U+20AC) of the
  pattern \<open>[\<euro>$\<pounds>\s]\<close> lies outside the range, so no modelled string holds it.
\<close>

definition isspace :: "char \<Rightarrow> bool" where
  "isspace c = (c \<in> set [CHR 0x09, CHR 0x0A, CHR 0x0B, CHR 0x0C, CHR 0x0D,
                           CHR 0x1C, CHR 0x1D, CHR 0x1E, CHR 0x1F, CHR 0x20,
                           CHR 0x85, CHR 0xA0])"

definition strip :: "string \<Rightarrow> string" where
  "strip s = rev (dropWhile isspace (rev (dropWhile isspace s)))"

definition lower_char :: "char \<Rightarrow> char" where
  "lower_char c =
     (let n = (of_char c :: nat)
      in if (65 \<le> n \<and> n \<le> 90) \<or> (192 \<le> n \<and> n \<le> 222 \<and> n \<noteq> 215)
         then char_of (n + 32) else c)"

definition lower :: "string \<Rightarrow> string" where
  "lower s = map lower_char s"

definition is_digit :: "char \<Rightarrow> bool" where
  "is_digit c = (c \<in> set ''0123456789'')"

definition digit_val :: "char \<Rightarrow> int" where
  "digit_val c = of_char c - 48"

definition digits_val :: "string \<Rightarrow> int" where
  "digits_val ds = foldl (\<lambda>n c. 10 * n + digit_val c) 0 ds"

text \<open>\<open>s.rfind(c)\<close> for a one-character \<open>c\<close>: the highest index of \<open>c\<close>, or \<open>-1\<close>.\<close>

definition rfind :: "char \<Rightarrow> string \<Rightarrow> int" where
  "rfind c s =
     (if c \<in> set s
      then int (length s) - 1 - int (length (takeWhile (\<lambda>x. x \<noteq> c) (rev s)))
      else - 1)"

text \<open>\<open>s.replace(c, new)\<close> for a one-character \<open>c\<close>: every occurrence is replaced.\<close>

definition replace :: "char \<Rightarrow> string \<Rightarrow> string \<Rightarrow> string" where
  "replace c new s = concat (map (\<lambda>x. if x = c then new else [x]) s)"

text \<open>\<open>needle in haystack\<close> on strings: substring search.\<close>

fun is_prefix :: "string \<Rightarrow> string \<Rightarrow> bool" where
  "is_prefix [] s = True"
| "is_prefix (p # ps) [] = False"
| "is_prefix (p # ps) (c # cs) = (p = c \<and> is_prefix ps cs)"

fun contains :: "string \<Rightarrow> string \<Rightarrow> bool" where
  "contains s [] = is_prefix s []"
| "contains s (c # cs) = (is_prefix s (c # cs) \<or> contains s cs)"

text \<open>\<open>sep.join(xs)\<close>.\<close>

fun join :: "string \<Rightarrow> string list \<Rightarrow> string" where
  "join sep [] = []"
| "join sep [x] = x"
| "join sep (x # y # ys) = x @ sep @ join sep (y # ys)"

text \<open>\<open>str(n)\<close> of an \<open>int\<close>: its decimal digits, with a minus sign when negative.\<close>

function str_digits :: "int \<Rightarrow> string" where
  "str_digits n =
     (if n < 10 then [char_of (48 + n)]
      else str_digits (n div 10) @ [char_of (48 + n mod 10)])"
  by pat_completeness auto
termination
  by (relation "measure nat") auto

declare str_digits.simps [simp del]

definition str_int :: "int \<Rightarrow> string" where
  "str_int i = (if i < 0 then CHR ''-'' # str_digits (- i) else str_digits i)"


section \<open>Python floats\<close>

text \<open>
  A \<open>float\<close> is an IEEE 754 binary64 value: \<open>Fin q\<close> is the finite double whose exact
  value is the rational \<open>q\<close>, beside the two infinities and NaN. The two zeros are
  not told apart (\<open>-0.0 == 0.0\<close> in Python). Every operation rounds its exact result
  to the nearest double, ties to even, as the hardware and \<open>float(str)\<close> do.
\<close>

datatype pyfloat = Fin rat | PosInf | NegInf | NaN

text \<open>\<open>n.bit_length()\<close> of a positive \<open>n\<close>.\<close>

function bit_length :: "int \<Rightarrow> int" where
  "bit_length n = (if n \<le> 0 then 0 else 1 + bit_length (n div 2))"
  by pat_completeness auto
termination
  by (relation "measure nat") auto

declare bit_length.simps [simp del]

definition pow2 :: "int \<Rightarrow> rat" where
  "pow2 e = (if 0 \<le> e then 2 ^ nat e else 1 / 2 ^ nat (- e))"

text \<open>\<open>round_half_even a b\<close> is the integer nearest to \<open>a / b\<close> for \<open>b > 0\<close>, ties to even.\<close>

definition round_half_even :: "int \<Rightarrow> int \<Rightarrow> int" where
  "round_half_even a b =
     (let d = a div b; r = a mod b
      in if 2 * r < b then d
         else if b < 2 * r then d + 1
         else if even d then d else d + 1)"

text \<open>\<open>ilog2 m b\<close> is \<open>\<lfloor>log\<^sub>2 (m / b)\<rfloor>\<close> for positive \<open>m\<close> and \<open>b\<close>.\<close>

definition ilog2 :: "int \<Rightarrow> int \<Rightarrow> int" where
  "ilog2 m b =
     (let d = bit_length m - bit_length b
      in if (if 0 \<le> d then b * 2 ^ nat d \<le> m else b \<le> m * 2 ^ nat (- d))
         then d else d - 1)"

text \<open>
  \<open>round_ratio a b\<close> is the double nearest to \<open>a / b\<close> (\<open>b > 0\<close>): the unit in the last
  place is \<open>2\<^sup>s\<close> with \<open>s = max e (-1022) - 52\<close>, which covers the subnormal range,
  and a result of \<open>2\<^sup>1\<^sup>0\<^sup>2\<^sup>4\<close> or more is an infinity.
\<close>

definition round_ratio :: "int \<Rightarrow> int \<Rightarrow> pyfloat" where
  "round_ratio a b =
     (if a = 0 then Fin 0
      else
        let m = \<bar>a\<bar>;
            s = max (ilog2 m b) (- 1022) - 52;
            n = (if 0 \<le> s then round_half_even m (b * 2 ^ nat s)
                 else round_half_even (m * 2 ^ nat (- s)) b)
        in if 2 ^ nat (1024 - s) \<le> n then (if 0 < a then PosInf else NegInf)
           else Fin ((if 0 < a then 1 else - 1) * of_int n * pow2 s))"

definition round_double :: "rat \<Rightarrow> pyfloat" where
  "round_double q = (case quotient_of q of (a, b) \<Rightarrow> round_ratio a b)"

text \<open>The float literal with digits \<open>m\<close> and \<open>k\<close> decimals: \<open>decimal 123456 2\<close> is \<open>1234.56\<close>.\<close>

definition decimal :: "int \<Rightarrow> nat \<Rightarrow> pyfloat" where
  "decimal m k = round_ratio m (10 ^ k)"

fun fsub :: "pyfloat \<Rightarrow> pyfloat \<Rightarrow> pyfloat" where
  "fsub NaN y = NaN"
| "fsub x NaN = NaN"
| "fsub PosInf PosInf = NaN"
| "fsub NegInf NegInf = NaN"
| "fsub PosInf y = PosInf"
| "fsub NegInf y = NegInf"
| "fsub (Fin x) PosInf = NegInf"
| "fsub (Fin x) NegInf = PosInf"
| "fsub (Fin x) (Fin y) = round_double (x - y)"

fun fneg :: "pyfloat \<Rightarrow> pyfloat" where
  "fneg (Fin x) = Fin (- x)"
| "fneg PosInf = NegInf"
| "fneg NegInf = PosInf"
| "fneg NaN = NaN"

fun fmul :: "pyfloat \<Rightarrow> pyfloat \<Rightarrow> pyfloat" where
  "fmul NaN y = NaN"
| "fmul x NaN = NaN"
| "fmul (Fin x) (Fin y) = round_double (x * y)"
| "fmul (Fin x) PosInf = (if x = 0 then NaN else if 0 < x then PosInf else NegInf)"
| "fmul (Fin x) NegInf = (if x = 0 then NaN else if 0 < x then NegInf else PosInf)"
| "fmul PosInf (Fin y) = (if y = 0 then NaN else if 0 < y then PosInf else NegInf)"
| "fmul NegInf (Fin y) = (if y = 0 then NaN else if 0 < y then NegInf else PosInf)"
| "fmul PosInf PosInf = PosInf"
| "fmul NegInf NegInf = PosInf"
| "fmul PosInf NegInf = NegInf"
| "fmul NegInf PosInf = NegInf"

text \<open>
  \<open>round(x, 2)\<close>: the exact value of \<open>x\<close> is rounded to two decimals, ties to even,
  and the decimal result is read back as a double.
\<close>

fun round2 :: "pyfloat \<Rightarrow> pyfloat" where
  "round2 (Fin x) = (case quotient_of (x * 100) of (a, b) \<Rightarrow> decimal (round_half_even a b) 2)"
| "round2 x = x"

definition isfinite :: "pyfloat \<Rightarrow> bool" where
  "isfinite x = (case x of Fin q \<Rightarrow> True | _ \<Rightarrow> False)"


subsection \<open>float(str)\<close>

text \<open>
  \<open>float(s)\<close> strips surrounding whitespace, checks that every underscore stands
  between two digits and drops the underscores, and reads an optionally signed
  decimal number with an optional exponent, or one of \<open>inf\<close>, \<open>infinity\<close>, \<open>nan\<close>
  in any letter case. Anything else raises \<open>ValueError\<close>. The whitespace that
  \<open>float\<close> strips is the ASCII whitespace of C (tab to carriage return, and the
  blank) and the two blanks above U+007F, which it first turns into ASCII blanks;
  unlike \<open>str.strip\<close> it keeps the separators U+001C to U+001F.
\<close>

datatype error = ValueError | KeyError | AttributeError

fun underscores_ok :: "char \<Rightarrow> string \<Rightarrow> bool" where
  "underscores_ok prev [] = (prev \<noteq> CHR ''_'')"
| "underscores_ok prev (c # cs) =
     (if c = CHR ''_'' then is_digit prev \<and> underscores_ok c cs
      else if prev = CHR ''_'' then is_digit c \<and> underscores_ok c cs
      else underscores_ok c cs)"

fun split_sign :: "string \<Rightarrow> bool \<times> string" where
  "split_sign [] = (False, [])"
| "split_sign (c # cs) =
     (if c = CHR ''-'' then (True, cs)
      else if c = CHR ''+'' then (False, cs)
      else (False, c # cs))"

definition parse_inf_or_nan :: "string \<Rightarrow> pyfloat option" where
  "parse_inf_or_nan s =
     (case split_sign s of (neg, r) \<Rightarrow>
        if lower r = ''inf'' \<or> lower r = ''infinity''
        then Some (if neg then NegInf else PosInf)
        else if lower r = ''nan'' then Some NaN
        else None)"

definition parse_exponent :: "string \<Rightarrow> int option" where
  "parse_exponent r =
     (case r of
        [] \<Rightarrow> Some 0
      | c # cs \<Rightarrow>
          if c = CHR ''e'' \<or> c = CHR ''E'' then
            (case split_sign cs of (neg, ds) \<Rightarrow>
               if ds \<noteq> [] \<and> list_all is_digit ds
               then Some (if neg then - digits_val ds else digits_val ds)
               else None)
          else None)"

definition scale10 :: "bool \<Rightarrow> int \<Rightarrow> int \<Rightarrow> pyfloat" where
  "scale10 neg m ex =
     (let a = (if neg then - m else m)
      in if 0 \<le> ex then round_ratio (a * 10 ^ nat ex) 1
         else round_ratio a (10 ^ nat (- ex)))"

definition strtod :: "string \<Rightarrow> pyfloat option" where
  "strtod s =
     (case split_sign s of (neg, r) \<Rightarrow>
        let ip = takeWhile is_digit r;
            r1 = dropWhile is_digit r;
            has_point = (case r1 of [] \<Rightarrow> False | c # cs \<Rightarrow> c = CHR ''.'');
            fp = (if has_point then takeWhile is_digit (tl r1) else []);
            r2 = (if has_point then dropWhile is_digit (tl r1) else r1)
        in if ip = [] \<and> fp = [] then None
           else (case parse_exponent r2 of
                   None \<Rightarrow> None
                 | Some ex \<Rightarrow> Some (scale10 neg (digits_val (ip @ fp)) (ex - int (length fp)))))"

definition float_space :: "char \<Rightarrow> bool" where
  "float_space c = (c \<in> set [CHR 0x09, CHR 0x0A, CHR 0x0B, CHR 0x0C, CHR 0x0D, CHR 0x20,
                               CHR 0x85, CHR 0xA0])"

definition float_strip :: "string \<Rightarrow> string" where
  "float_strip s = rev (dropWhile float_space (rev (dropWhile float_space s)))"

definition py_float :: "string \<Rightarrow> error + pyfloat" where
  "py_float s =
     (let t = float_strip s
      in if \<not> underscores_ok (CHR 0x00) t then Inl ValueError
         else
           let u = filter (\<lambda>c. c \<noteq> CHR ''_'') t
           in (case strtod u of
                 Some v \<Rightarrow> Inr v
               | None \<Rightarrow>
                   (case parse_inf_or_nan u of
                      Some v \<Rightarrow> Inr v
                    | None \<Rightarrow> Inl ValueError)))"


section \<open>Cells and clean\_numeric\<close>

text \<open>
  A cell of a table is empty (\<open>None\<close>), a string or a number. \<open>pd.isna\<close> holds of
  \<open>None\<close> and of the float NaN.
\<close>

datatype cell = CNone | CStr string | CInt int | CFloat pyfloat

fun isna :: "cell \<Rightarrow> bool" where
  "isna CNone = True"
| "isna (CFloat NaN) = True"
| "isna c = False"

text \<open>
  \<open>re.sub(r'[\<euro>$\<pounds>\s]', '', str(value).strip())\<close>: trimmed, then without currency
  symbols and whitespace.
\<close>

definition strip_symbols :: "string \<Rightarrow> string" where
  "strip_symbols s =
     filter (\<lambda>c. \<not> (c = CHR ''$'' \<or> c = CHR 0xA3 \<or> isspace c)) (strip s)"

text \<open>The branch on the separators, from \<open>if ',' in str_value and '.' in str_value\<close> on.\<close>

definition fix_separators :: "string \<Rightarrow> string" where
  "fix_separators s =
     (if CHR '','' \<in> set s \<and> CHR ''.'' \<in> set s then
        (let last_comma = rfind (CHR '','') s; last_dot = rfind (CHR ''.'') s
         in if last_dot < last_comma
            then replace (CHR '','') ''.'' (replace (CHR ''.'') [] s)
            else replace (CHR '','') [] s)
      else if CHR '','' \<in> set s then
        (if int (length s) - 4 < rfind (CHR '','') s
         then replace (CHR '','') ''.'' s
         else replace (CHR '','') [] s)
      else s)"

text \<open>\<open>try: return float(str_value)  except: return 0.0\<close>.\<close>

definition try_float :: "string \<Rightarrow> error + pyfloat" where
  "try_float s = (case py_float s of Inl e \<Rightarrow> Inr (Fin 0) | Inr v \<Rightarrow> Inr v)"

text \<open>
  \<open>clean_numeric\<close>. For a float cell, \<open>str\<close> gives the shortest text that \<open>float\<close>
  reads back as the same double; it holds no comma, currency symbol or blank, so
  the function returns the cell's own value. For an \<open>int\<close> cell the decimal text of
  \<open>str\<close> goes through the same steps as a string; the interpreter's configurable
  limit on the number of digits that \<open>str\<close> converts is lifted here, and stands at
  its default in \<open>clean_numeric_any\<close> below.
\<close>

definition clean_numeric :: "cell \<Rightarrow> error + pyfloat" where
  "clean_numeric v =
     (if isna v \<or> v = CStr [] then Inr (Fin 0)
      else (case v of
              CStr s \<Rightarrow> try_float (fix_separators (strip_symbols s))
            | CInt i \<Rightarrow> try_float (fix_separators (strip_symbols (str_int i)))
            | CFloat f \<Rightarrow> Inr f
            | CNone \<Rightarrow> Inr (Fin 0)))"

text \<open>\<open>series.apply(f)\<close>: \<open>f\<close> on every cell in order; an exception of \<open>f\<close> ends the call.\<close>

fun apply_cells :: "(cell \<Rightarrow> error + cell) \<Rightarrow> cell list \<Rightarrow> error + cell list" where
  "apply_cells f [] = Inr []"
| "apply_cells f (c # cs) =
     (case f c of
        Inl e \<Rightarrow> Inl e
      | Inr v \<Rightarrow> (case apply_cells f cs of Inl e \<Rightarrow> Inl e | Inr vs \<Rightarrow> Inr (v # vs)))"

definition clean_cell :: "cell \<Rightarrow> error + cell" where
  "clean_cell c = (case clean_numeric c of Inl e \<Rightarrow> Inl e | Inr x \<Rightarrow> Inr (CFloat x))"

text \<open>
  \<open>clean_numeric(value)\<close> on the values that a request can put in a cell beyond the
  cells above (a row is typed \<open>Dict[str, Any]\<close>): a \<open>bool\<close>, and a list of one or more
  cells; and with the interpreter's limit on \<open>str\<close> of an \<open>int\<close> at its default of 4300
  digits. The two tests of the first line and the call of \<open>str\<close> stand before the \<open>try\<close>
  block, so what they raise leaves the function.
  \<^item> \<open>pd.isna\<close> of a list is the array of \<open>pd.isna\<close> of its elements; the truth
    value of an array of two or more elements raises \<open>ValueError\<close>. For a list of one
    element the function returns 0.0: at once when the element is \<open>None\<close> or NaN, and
    otherwise because \<open>str\<close> of a list starts with a bracket, which no later step
    removes and \<open>float\<close> rejects.
  \<^item> \<open>str\<close> of an \<open>int\<close> of more than 4300 digits raises \<open>ValueError\<close>.
  \<^item> \<open>str\<close> of a \<open>bool\<close> is \<open>True\<close> or \<open>False\<close>.
\<close>

datatype pyvalue = PyScalar cell | PyBool bool | PyList cell "cell list"

definition max_str_digits :: nat where
  "max_str_digits = 4300"

definition clean_numeric_any :: "pyvalue \<Rightarrow> error + pyfloat" where
  "clean_numeric_any v =
     (case v of
        PyScalar c \<Rightarrow>
          (case c of
             CInt i \<Rightarrow> if 10 ^ max_str_digits \<le> \<bar>i\<bar> then Inl ValueError else clean_numeric c
           | _ \<Rightarrow> clean_numeric c)
      | PyBool b \<Rightarrow> try_float (fix_separators (strip_symbols (if b then ''True'' else ''False'')))
      | PyList x xs \<Rightarrow> if xs = [] then Inr (Fin 0) else Inl ValueError)"


section \<open>Data frames\<close>

text \<open>
  A \<open>pandas.DataFrame\<close> is its list of column labels and its rows, each row a list of
  cells in the order of the labels. The frame operations below are those of frames
  with pairwise distinct labels; cells keep the Python value they hold (the coercion
  of a column to one \<open>dtype\<close> is not modelled).
\<close>

record dataframe =
  columns :: "string list"
  data :: "cell list list"


definition index_of :: "string \<Rightarrow> string list \<Rightarrow> nat" where
  "index_of c cols = length (takeWhile (\<lambda>x. x \<noteq> c) cols)"

definition cell_at :: "cell list \<Rightarrow> nat \<Rightarrow> cell" where
  "cell_at r i = (if i < length r then r ! i else CFloat NaN)"

text \<open>\<open>df[c]\<close>: the cells of column \<open>c\<close>, one per row.\<close>

definition get_column :: "dataframe \<Rightarrow> string \<Rightarrow> cell list" where
  "get_column df c = map (\<lambda>r. cell_at r (index_of c (columns df))) (data df)"

text \<open>\<open>df[c] = values\<close>: overwrites column \<open>c\<close> in place, or appends it as the last column.\<close>

definition set_column :: "string \<Rightarrow> cell list \<Rightarrow> dataframe \<Rightarrow> dataframe" where
  "set_column c vs df =
     (if c \<in> set (columns df)
      then df\<lparr>data := map (\<lambda>(r, v). r[index_of c (columns df) := v]) (zip (data df) vs)\<rparr>
      else df\<lparr>columns := columns df @ [c],
              data := map (\<lambda>(r, v). r @ [v]) (zip (data df) vs)\<rparr>)"

text \<open>Keeps the entries of \<open>xs\<close> whose label passes \<open>P\<close>.\<close>

definition select :: "(string \<Rightarrow> bool) \<Rightarrow> string list \<Rightarrow> 'a list \<Rightarrow> 'a list" where
  "select P cols xs = map snd (filter (\<lambda>(c, x). P c) (zip cols xs))"

text \<open>\<open>df.drop(columns=labels)\<close>, every label being a column of \<open>df\<close>.\<close>

definition drop_columns :: "string list \<Rightarrow> dataframe \<Rightarrow> dataframe" where
  "drop_columns labels df =
     \<lparr>columns = filter (\<lambda>c. c \<notin> set labels) (columns df),
      data = map (select (\<lambda>c. c \<notin> set labels) (columns df)) (data df)\<rparr>"

text \<open>\<open>df.dropna(how='all')\<close> and \<open>df.dropna(axis=1, how='all')\<close>.\<close>

definition dropna_rows :: "dataframe \<Rightarrow> dataframe" where
  "dropna_rows df = df\<lparr>data := filter (\<lambda>r. \<not> list_all isna r) (data df)\<rparr>"

definition dropna_columns :: "dataframe \<Rightarrow> dataframe" where
  "dropna_columns df =
     (let keep = map (\<lambda>j. list_ex (\<lambda>r. \<not> isna (cell_at r j)) (data df)) [0..<length (columns df)]
      in \<lparr>columns = map snd (filter fst (zip keep (columns df))),
          data = map (\<lambda>r. map snd (filter fst (zip keep r))) (data df)\<rparr>)"

text \<open>
  \<open>pd.DataFrame(records)\<close> for a list of dicts: the labels are the keys in the order
  of their first appearance, and a key missing from a row gives NaN.
\<close>

fun first_seen :: "string list \<Rightarrow> string list \<Rightarrow> string list" where
  "first_seen seen [] = []"
| "first_seen seen (k # ks) =
     (if k \<in> set seen then first_seen seen ks else k # first_seen (k # seen) ks)"

definition DataFrame :: "(string \<times> cell) list list \<Rightarrow> dataframe" where
  "DataFrame records =
     (let cols = first_seen [] (concat (map (map fst) records))
      in \<lparr>columns = cols,
          data = map (\<lambda>rec. map (\<lambda>c. case map_of rec c of Some v \<Rightarrow> v | None \<Rightarrow> CFloat NaN) cols)
                   records\<rparr>)"

text \<open>
  \<open>df.to_dict('records')\<close>: one dict per row, built from the pairs of label and cell
  in order, so that of two columns with the same label the later cell stays, at the
  place of the first; a frame with no column gives the empty list.
\<close>

definition row_dict :: "string list \<Rightarrow> cell list \<Rightarrow> (string \<times> cell) list" where
  "row_dict cols r = foldl (\<lambda>d (k, v). AList.update k v d) [] (zip cols r)"

definition to_records :: "dataframe \<Rightarrow> (string \<times> cell) list list" where
  "to_records df = (if columns df = [] then [] else map (row_dict (columns df)) (data df))"


section \<open>detect\_format\<close>

text \<open>
  \<open>re.compile(r'^a?\d{4}$').match(c)\<close>: an optional \<open>a\<close>, four digits, and the end of
  the string (which \<open>$\<close> also finds before a final newline).
\<close>

definition four_digits :: "string \<Rightarrow> bool" where
  "four_digits r =
     (length (take 4 r) = 4 \<and> list_all is_digit (take 4 r)
      \<and> (drop 4 r = [] \<or> drop 4 r = [CHR 0x0A]))"

definition year_pattern :: "string \<Rightarrow> bool" where
  "year_pattern c =
     (case c of
        [] \<Rightarrow> False
      | x # xs \<Rightarrow> if x = CHR ''a'' then four_digits xs else four_digits c)"

definition any_term :: "string list \<Rightarrow> string \<Rightarrow> bool" where
  "any_term terms s = list_ex (\<lambda>t. contains t s) terms"

definition concept_terms :: "string list" where
  "concept_terms = [''concepto'', ''nombre'', ''concept'', ''name'']"

definition date_terms :: "string list" where
  "date_terms = [''fecha'', ''date'']"

definition amount_terms :: "string list" where
  "amount_terms = [''importe'', ''monto'', ''amount'', ''cantidad'']"

definition category_terms :: "string list" where
  "category_terms = [''categoria'', ''category'', ''tipo'', ''type'']"

definition budget_terms :: "string list" where
  "budget_terms = [''presupuesto'', ''budget'', ''planeado'']"

definition actual_terms :: "string list" where
  "actual_terms = [''real'', ''actual'', ''ejecutado'']"

definition debit_terms :: "string list" where
  "debit_terms = [''debe'', ''debit'']"

definition credit_terms :: "string list" where
  "credit_terms = [''haber'', ''credit'']"

text \<open>The messages, with their accented letters as Latin-1 code points.\<close>

definition warn_two_years :: string where
  "warn_two_years = ''Solo se detectaron 2 a'' @ [CHR 0xF1] @ ''os, se recomienda al menos 3 para an''
     @ [CHR 0xE1] @ ''lisis de tendencias''"

definition warn_no_category :: string where
  "warn_no_category = ''No se detect'' @ [CHR 0xF3] @ '' columna de categor'' @ [CHR 0xED]
     @ ''a, los an'' @ [CHR 0xE1] @ ''lisis ser'' @ [CHR 0xE1] @ ''n limitados''"

definition warn_debe_haber_format :: string where
  "warn_debe_haber_format = ''Formato debe/haber detectado, se convertir'' @ [CHR 0xE1]
     @ '' a importe con signo''"

definition warn_unknown :: string where
  "warn_unknown = ''No se pudo determinar el formato autom'' @ [CHR 0xE1] @ ''ticamente''"

definition cols_lower :: "dataframe \<Rightarrow> string list" where
  "cols_lower df = map (\<lambda>c. strip (lower c)) (columns df)"

definition detect_format :: "dataframe \<Rightarrow> string \<times> pyfloat \<times> string list" where
  "detect_format df =
     (let year_cols = filter year_pattern (cols_lower df);
          joined = join '' '' (cols_lower df);
          has_concept = any_term concept_terms joined;
          has_date = any_term date_terms joined;
          has_amount = any_term amount_terms joined;
          has_category = any_term category_terms joined;
          has_budget = any_term budget_terms joined;
          has_actual = any_term actual_terms joined;
          has_debit = any_term debit_terms joined;
          has_credit = any_term credit_terms joined
      in if 2 \<le> length year_cols \<and> has_concept then
           (''financial_statement'', decimal 9 1,
            if length year_cols < 3 then [warn_two_years] else [])
         else if has_budget \<and> has_actual \<and> (has_category \<or> has_concept) then
           (''budget'', decimal 95 2, [])
         else if has_date \<and> has_amount then
           (''transactional'', decimal 85 2,
            if \<not> has_category then [warn_no_category] else [])
         else if has_debit \<and> has_credit then
           (''transactional'', decimal 8 1, [warn_debe_haber_format])
         else (''unknown'', Fin 0, [warn_unknown]))"


section \<open>The transformations\<close>

text \<open>
  \<open>df.melt(id_vars, value_vars, var_name, value_name)\<close> of pandas 2, for \<open>id_vars\<close> and
  \<open>value_vars\<close> with no label in common and \<open>var_name\<close> not among the \<open>id_vars\<close>: a
  \<open>ValueError\<close> when \<open>value_name\<close> is already a column, a \<open>KeyError\<close> when a listed
  label is not a column; otherwise, for each value column in the order given (a label
  listed twice is taken once, where it comes first) and under it for each row in
  order, one row with the row's id cells, the label of the value column and its cell.
\<close>

definition melt ::
  "dataframe \<Rightarrow> string list \<Rightarrow> string list \<Rightarrow> string \<Rightarrow> string \<Rightarrow> error + dataframe" where
  "melt df id_vars value_vars var_name value_name =
     (if value_name \<in> set (columns df) then Inl ValueError
      else if \<not> list_all (\<lambda>c. c \<in> set (columns df)) (id_vars @ value_vars) then Inl KeyError
      else Inr \<lparr>columns = id_vars @ [var_name, value_name],
                data = concat (map (\<lambda>v. map (\<lambda>r. map (\<lambda>c. cell_at r (index_of c (columns df))) id_vars
                                                   @ [CStr v, cell_at r (index_of v (columns df))])
                                            (data df))
                                (first_seen [] value_vars))\<rparr>)"

text \<open>The label of the year column: \<open>a\<close>, \<open>n\<close> with a tilde (U+00F1), \<open>o\<close>.\<close>

definition anio :: string where
  "anio = [CHR ''a'', CHR 0xF1, CHR ''o'']"

text \<open>\<open>series.str.replace('a', '', regex=False)\<close> on one cell; a cell that is no string gives NaN.\<close>

fun str_replace_a :: "cell \<Rightarrow> cell" where
  "str_replace_a (CStr s) = CStr (replace (CHR ''a'') [] s)"
| "str_replace_a c = CFloat NaN"

text \<open>
  \<open>unpivot_years\<close>. When the year label is already an id column, the melted frame has
  two columns of that label, \<open>df_melted[label]\<close> is a frame and not a series, and its
  \<open>.str\<close> raises \<open>AttributeError\<close>.
\<close>

definition unpivot_years :: "dataframe \<Rightarrow> string \<Rightarrow> string list \<Rightarrow> error + dataframe" where
  "unpivot_years df concept_col year_cols =
     (let id_cols = filter (\<lambda>c. c \<notin> set year_cols) (columns df)
      in case melt df id_cols year_cols anio ''importe'' of
           Inl e \<Rightarrow> Inl e
         | Inr df_melted \<Rightarrow>
             if anio \<in> set id_cols then Inl AttributeError
             else
               let m1 = set_column anio (map str_replace_a (get_column df_melted anio)) df_melted
               in (case apply_cells clean_cell (get_column m1 ''importe'') of
                     Inl e \<Rightarrow> Inl e
                   | Inr vs \<Rightarrow> Inr (set_column ''importe'' vs m1)))"

text \<open>The difference of two float columns, cell by cell.\<close>

fun cell_sub :: "cell \<Rightarrow> cell \<Rightarrow> cell" where
  "cell_sub (CFloat x) (CFloat y) = CFloat (fsub x y)"
| "cell_sub a b = CFloat NaN"

definition apply_debe_haber :: "dataframe \<Rightarrow> string \<Rightarrow> string \<Rightarrow> error + dataframe" where
  "apply_debe_haber df debit_col credit_col =
     (if debit_col \<notin> set (columns df) then Inl KeyError
      else
        (case apply_cells clean_cell (get_column df debit_col) of
           Inl e \<Rightarrow> Inl e
         | Inr debe \<Rightarrow>
             (let df1 = set_column ''debe_clean'' debe df
              in if credit_col \<notin> set (columns df1) then Inl KeyError
                 else
                   (case apply_cells clean_cell (get_column df1 credit_col) of
                      Inl e \<Rightarrow> Inl e
                    | Inr haber \<Rightarrow>
                        (let df2 = set_column ''haber_clean'' haber df1;
                             df3 = set_column ''importe''
                                     (map (\<lambda>(a, b). cell_sub a b)
                                        (zip (get_column df2 ''debe_clean'')
                                             (get_column df2 ''haber_clean''))) df2
                         in Inr (drop_columns
                                   [''debe_clean'', ''haber_clean'', debit_col, credit_col] df3))))))"


section \<open>normalize\<close>

text \<open>
  The two dicts of options. An entry is absent from the dict, present with the value
  \<open>None\<close>, or present with a value; \<open>get\<close> is \<open>dict.get(key)\<close> and \<open>flag d\<close> the truth
  value of \<open>dict.get(key, d)\<close>.
\<close>

datatype 'a entry = Absent | Null | Val 'a

record mapping =
  date_column :: "string entry"
  amount_column :: "string entry"
  category_column :: "string entry"
  concept_column :: "string entry"
  budget_column :: "string entry"
  actual_column :: "string entry"
  debit_column :: "string entry"
  credit_column :: "string entry"

record rules =
  rule_unpivot :: "bool entry"
  rule_unpivot_year_columns :: "string list entry"
  rule_debe_haber :: "bool entry"
  rule_invert_negatives :: "bool entry"
  rule_detect_format :: "bool entry"
  rule_drop_empty_rows :: "bool entry"
  rule_drop_empty_columns :: "bool entry"

fun get :: "'a entry \<Rightarrow> 'a option" where
  "get (Val v) = Some v"
| "get e = None"

fun flag :: "bool \<Rightarrow> bool entry \<Rightarrow> bool" where
  "flag d Absent = d"
| "flag d Null = False"
| "flag d (Val b) = b"

text \<open>\<open>col and col in df.columns\<close>, and \<open>not col\<close>.\<close>

fun usable :: "string option \<Rightarrow> string list \<Rightarrow> bool" where
  "usable None cols = False"
| "usable (Some c) cols = (c \<noteq> [] \<and> c \<in> set cols)"

fun falsy :: "string option \<Rightarrow> bool" where
  "falsy None = True"
| "falsy (Some c) = (c = [])"

fun name_of :: "string option \<Rightarrow> string" where
  "name_of None = []"
| "name_of (Some c) = c"

text \<open>
  The entries of \<open>transformations_applied\<close>: each constructor stands for one message
  of the source and carries the values the message interpolates.
\<close>

datatype transformation =
    DroppedRows nat
  | DroppedColumns nat
  | FormatDetected string pyfloat
  | DebeHaberApplied string string
  | UnpivotApplied nat
  | UnpivotAuto string
  | SignsInverted
  | Renamed "string list"

definition warn_debe_haber_missing :: string where
  "warn_debe_haber_missing = ''Debe/haber solicitado pero columnas no encontradas''"

definition warn_unpivot_no_concept :: string where
  "warn_unpivot_no_concept = ''Unpivot solicitado pero no se encontr'' @ [CHR 0xF3]
     @ '' columna de concepto''"

definition warn_no_fecha :: string where
  "warn_no_fecha = ''ADVERTENCIA: Formato transaccional pero sin columna '' @ [CHR 0x27]
     @ ''fecha'' @ [CHR 0x27]"

definition warn_no_importe :: string where
  "warn_no_importe = ''ADVERTENCIA: Formato transaccional pero sin columna '' @ [CHR 0x27]
     @ ''importe'' @ [CHR 0x27]"

definition warn_no_concepto :: string where
  "warn_no_concepto = ''ADVERTENCIA: Estado financiero pero sin columna '' @ [CHR 0x27]
     @ ''concepto'' @ [CHR 0x27]"

text \<open>The local variables of \<open>normalize\<close>.\<close>

record state =
  s_df :: dataframe
  s_warnings :: "string list"
  s_transformations :: "transformation list"
  s_format_detected :: string
  s_confidence :: pyfloat

text \<open>
  \<open>df = pd.DataFrame(data)\<close> and \<open>df.columns = df.columns.str.strip().str.lower()\<close>.
  When no record has a key (the empty list, or empty dicts only) the frame has no
  column, its \<open>columns\<close> is a \<open>RangeIndex\<close> and \<open>.str\<close> raises \<open>AttributeError\<close>.
\<close>

definition init_state :: "(string \<times> cell) list list \<Rightarrow> error + state" where
  "init_state records =
     (let d = DataFrame records
      in if columns d = [] then Inl AttributeError
         else Inr \<lparr>s_df = d\<lparr>columns := map (\<lambda>c. lower (strip c)) (columns d)\<rparr>,
                   s_warnings = [], s_transformations = [],
                   s_format_detected = ''unknown'', s_confidence = Fin 0\<rparr>)"

definition step_drop_rows :: "rules \<Rightarrow> state \<Rightarrow> state" where
  "step_drop_rows rules st =
     (if flag True (rule_drop_empty_rows rules) then
        (let initial_rows = length (data (s_df st));
             d = dropna_rows (s_df st);
             dropped = initial_rows - length (data d)
         in st\<lparr>s_df := d,
               s_transformations := s_transformations st
                 @ (if 0 < dropped then [DroppedRows dropped] else [])\<rparr>)
      else st)"

definition step_drop_columns :: "rules \<Rightarrow> state \<Rightarrow> state" where
  "step_drop_columns rules st =
     (if flag True (rule_drop_empty_columns rules) then
        (let initial_cols = length (columns (s_df st));
             d = dropna_columns (s_df st);
             dropped = initial_cols - length (columns d)
         in st\<lparr>s_df := d,
               s_transformations := s_transformations st
                 @ (if 0 < dropped then [DroppedColumns dropped] else [])\<rparr>)
      else st)"

definition step_detect :: "rules \<Rightarrow> state \<Rightarrow> state" where
  "step_detect rules st =
     (if flag True (rule_detect_format rules) then
        (case detect_format (s_df st) of
           (f, c, detect_warnings) \<Rightarrow>
             st\<lparr>s_format_detected := f, s_confidence := c,
                s_warnings := s_warnings st @ detect_warnings,
                s_transformations := s_transformations st @ [FormatDetected f c]\<rparr>)
      else st)"

definition step_debe_haber :: "mapping \<Rightarrow> rules \<Rightarrow> state \<Rightarrow> error + state" where
  "step_debe_haber mapping rules st =
     (if flag False (rule_debe_haber rules) then
        (let debit_col = get (debit_column mapping);
             credit_col = get (credit_column mapping)
         in if usable debit_col (columns (s_df st)) \<and> usable credit_col (columns (s_df st)) then
              (case apply_debe_haber (s_df st) (name_of debit_col) (name_of credit_col) of
                 Inl e \<Rightarrow> Inl e
               | Inr d \<Rightarrow>
                   Inr (st\<lparr>s_df := d,
                           s_transformations := s_transformations st
                             @ [DebeHaberApplied (name_of debit_col) (name_of credit_col)]\<rparr>))
            else Inr (st\<lparr>s_warnings := s_warnings st @ [warn_debe_haber_missing]\<rparr>))
      else Inr st)"

definition step_unpivot :: "mapping \<Rightarrow> rules \<Rightarrow> state \<Rightarrow> error + state" where
  "step_unpivot mapping rules st =
     (if flag False (rule_unpivot rules) then
        (let given = (case rule_unpivot_year_columns rules of Val l \<Rightarrow> l | _ \<Rightarrow> []);
             concept_col = get (concept_column mapping);
             year_cols = (if given = [] then filter year_pattern (columns (s_df st)) else given)
         in if year_cols \<noteq> [] \<and> usable concept_col (columns (s_df st)) then
              (case unpivot_years (s_df st) (name_of concept_col) year_cols of
                 Inl e \<Rightarrow> Inl e
               | Inr d \<Rightarrow>
                   Inr (st\<lparr>s_df := d,
                           s_transformations := s_transformations st @ [UnpivotApplied (length year_cols)],
                           s_format_detected := ''transactional''\<rparr>))
            else if year_cols \<noteq> [] \<and> falsy concept_col then
              (case find (any_term concept_terms) (columns (s_df st)) of
                 Some col \<Rightarrow>
                   (case unpivot_years (s_df st) col year_cols of
                      Inl e \<Rightarrow> Inl e
                    | Inr d \<Rightarrow>
                        Inr (st\<lparr>s_df := d,
                                s_transformations := s_transformations st @ [UnpivotAuto col],
                                s_format_detected := ''transactional''\<rparr>))
               | None \<Rightarrow> Inr (st\<lparr>s_warnings := s_warnings st @ [warn_unpivot_no_concept]\<rparr>))
            else Inr st)
      else Inr st)"

text \<open>\<open>-x if isinstance(x, (int, float)) else x\<close>.\<close>

fun invert :: "cell \<Rightarrow> cell" where
  "invert (CInt i) = CInt (- i)"
| "invert (CFloat x) = CFloat (fneg x)"
| "invert c = c"

definition step_invert :: "mapping \<Rightarrow> rules \<Rightarrow> state \<Rightarrow> state" where
  "step_invert mapping rules st =
     (if flag False (rule_invert_negatives rules) then
        (let amount_col = (case amount_column mapping of
                             Absent \<Rightarrow> Some ''importe'' | Null \<Rightarrow> None | Val c \<Rightarrow> Some c)
         in case amount_col of
              None \<Rightarrow> st
            | Some a \<Rightarrow>
                if a \<in> set (columns (s_df st)) then
                  st\<lparr>s_df := set_column a (map invert (get_column (s_df st) a)) (s_df st),
                     s_transformations := s_transformations st @ [SignsInverted]\<rparr>
                else st)
      else st)"

text \<open>
  The dict \<open>rename_map\<close> is an association list in insertion order; \<open>AList.update\<close>
  overwrites the value of a key already present and appends a new key.
\<close>

definition add_rename ::
  "string entry \<Rightarrow> string \<Rightarrow> string list \<Rightarrow> (string \<times> string) list \<Rightarrow> (string \<times> string) list" where
  "add_rename e target cols rename_map =
     (if usable (get e) cols then AList.update (name_of (get e)) target rename_map
      else rename_map)"

definition rename :: "(string \<times> string) list \<Rightarrow> dataframe \<Rightarrow> dataframe" where
  "rename rename_map d =
     d\<lparr>columns := map (\<lambda>c. case map_of rename_map c of Some n \<Rightarrow> n | None \<Rightarrow> c) (columns d)\<rparr>"

definition step_rename :: "mapping \<Rightarrow> state \<Rightarrow> state" where
  "step_rename mapping st =
     (let cols = columns (s_df st);
          rename_map =
            add_rename (concept_column mapping) ''concepto'' cols
              (add_rename (category_column mapping) ''categoria'' cols
                 (add_rename (amount_column mapping) ''importe'' cols
                    (add_rename (date_column mapping) ''fecha'' cols [])))
      in if rename_map \<noteq> [] then
           st\<lparr>s_df := rename rename_map (s_df st),
              s_transformations := s_transformations st @ [Renamed (map fst rename_map)]\<rparr>
         else st)"

definition step_validate :: "state \<Rightarrow> state" where
  "step_validate st =
     (let st1 =
            (if s_format_detected st = ''transactional'' \<and> ''fecha'' \<notin> set (columns (s_df st))
             then st\<lparr>s_warnings := s_warnings st @ [warn_no_fecha],
                     s_confidence := fmul (s_confidence st) (decimal 7 1)\<rparr>
             else st);
          st2 =
            (if s_format_detected st1 = ''transactional'' \<and> ''importe'' \<notin> set (columns (s_df st1))
             then st1\<lparr>s_warnings := s_warnings st1 @ [warn_no_importe],
                      s_confidence := fmul (s_confidence st1) (decimal 7 1)\<rparr>
             else st1)
      in if s_format_detected st2 = ''financial_statement'' \<and> ''concepto'' \<notin> set (columns (s_df st2))
         then st2\<lparr>s_warnings := s_warnings st2 @ [warn_no_concepto],
                  s_confidence := fmul (s_confidence st2) (decimal 8 1)\<rparr>
         else st2)"

text \<open>The dict that \<open>normalize\<close> returns.\<close>

record result =
  res_normalized_data :: "(string \<times> cell) list list"
  res_format_detected :: string
  res_confidence :: pyfloat
  res_warnings :: "string list"
  res_transformations_applied :: "transformation list"
  res_columns :: "string list"
  res_rows :: nat

definition finish :: "state \<Rightarrow> result" where
  "finish st =
     \<lparr>res_normalized_data = to_records (s_df st),
      res_format_detected = s_format_detected st,
      res_confidence = round2 (s_confidence st),
      res_warnings = s_warnings st,
      res_transformations_applied = s_transformations st,
      res_columns = columns (s_df st),
      res_rows = length (data (s_df st))\<rparr>"

text \<open>
  \<open>normalize\<close>, cut in three: the steps that follow the unpivot step, those that
  follow the debit/credit step, and those that come before it.
\<close>

definition after_unpivot :: "mapping \<Rightarrow> rules \<Rightarrow> state \<Rightarrow> result" where
  "after_unpivot mapping rules st =
     finish (step_validate (step_rename mapping (step_invert mapping rules st)))"

definition after_debe_haber :: "mapping \<Rightarrow> rules \<Rightarrow> state \<Rightarrow> error + result" where
  "after_debe_haber mapping rules st =
     (case step_unpivot mapping rules st of
        Inl e \<Rightarrow> Inl e
      | Inr st' \<Rightarrow> Inr (after_unpivot mapping rules st'))"

definition before_debe_haber :: "(string \<times> cell) list list \<Rightarrow> rules \<Rightarrow> error + state" where
  "before_debe_haber records rules =
     (case init_state records of
        Inl e \<Rightarrow> Inl e
      | Inr st \<Rightarrow> Inr (step_detect rules (step_drop_columns rules (step_drop_rows rules st))))"

definition normalize :: "(string \<times> cell) list list \<Rightarrow> mapping \<Rightarrow> rules \<Rightarrow> error + result" where
  "normalize records mapping rules =
     (case before_debe_haber records rules of
        Inl e \<Rightarrow> Inl e
      | Inr st0 \<Rightarrow>
          (case step_debe_haber mapping rules st0 of
             Inl e \<Rightarrow> Inl e
           | Inr st \<Rightarrow> after_debe_haber mapping rules st))"


section \<open>The classification rules in words\<close>

text \<open>
  The conditions of the four rules as the specification words them: the number of
  year-like columns and the presence of a family of terms among the column names,
  lower-cased and trimmed. The glossary of the specification calls a name year-like
  when it is exactly four digits after an optional single leading letter
  (\<open>year_like\<close>); \<open>year_like_a\<close> is the narrower reading in which that letter is \<open>a\<close>.
\<close>

definition is_letter :: "char \<Rightarrow> bool" where
  "is_letter c = (c \<in> set ''abcdefghijklmnopqrstuvwxyzABCDEFGHIJKLMNOPQRSTUVWXYZ'')"

definition exactly_four_digits :: "string \<Rightarrow> bool" where
  "exactly_four_digits r = (length r = 4 \<and> list_all is_digit r)"

definition year_like :: "string \<Rightarrow> bool" where
  "year_like c =
     (exactly_four_digits c
      \<or> (case c of [] \<Rightarrow> False | x # xs \<Rightarrow> is_letter x \<and> exactly_four_digits xs))"

definition year_like_a :: "string \<Rightarrow> bool" where
  "year_like_a c =
     (exactly_four_digits c
      \<or> (case c of [] \<Rightarrow> False | x # xs \<Rightarrow> x = CHR ''a'' \<and> exactly_four_digits xs))"

definition n_year_like :: "dataframe \<Rightarrow> nat" where
  "n_year_like df = length (filter year_like (cols_lower df))"

definition n_year_cols :: "dataframe \<Rightarrow> nat" where
  "n_year_cols df = length (filter year_like_a (cols_lower df))"

definition has_term :: "string list \<Rightarrow> dataframe \<Rightarrow> bool" where
  "has_term terms df = any_term terms (join '' '' (cols_lower df))"

definition rule_statement :: "dataframe \<Rightarrow> bool" where
  "rule_statement df = (2 \<le> n_year_cols df \<and> has_term concept_terms df)"

definition rule_budget :: "dataframe \<Rightarrow> bool" where
  "rule_budget df =
     (has_term budget_terms df \<and> has_term actual_terms df
      \<and> (has_term category_terms df \<or> has_term concept_terms df))"

definition rule_dated :: "dataframe \<Rightarrow> bool" where
  "rule_dated df = (has_term date_terms df \<and> has_term amount_terms df)"

definition rule_ledger :: "dataframe \<Rightarrow> bool" where
  "rule_ledger df = (has_term debit_terms df \<and> has_term credit_terms df)"

text \<open>Tables for the examples.\<close>

definition statement_and_budget_table :: dataframe where
  "statement_and_budget_table =
     \<lparr>columns = [''Concepto'', ''a2020'', ''a2021'', ''Presupuesto'', ''Real''],
      data = [[CStr ''Ventas'', CInt 10, CInt 12, CInt 11, CInt 12]]\<rparr>"

definition three_year_table :: dataframe where
  "three_year_table =
     \<lparr>columns = [''concepto'', ''a2020'', ''a2021'', ''a2022''],
      data = [[CStr ''Ventas'', CInt 10, CInt 12, CInt 14]]\<rparr>"

definition budget_table :: dataframe where
  "budget_table =
     \<lparr>columns = [''categoria'', ''presupuesto'', ''real''],
      data = [[CStr ''Marketing'', CInt 2000, CInt 2500]]\<rparr>"

definition dated_table :: dataframe where
  "dated_table =
     \<lparr>columns = [''fecha'', ''importe''], data = [[CStr ''2025-01-31'', CStr ''10,5'']]\<rparr>"

definition ledger_table :: dataframe where
  "ledger_table = \<lparr>columns = [''debe'', ''haber''], data = [[CStr ''100'', CStr ''0'']]\<rparr>"

definition unknown_table :: dataframe where
  "unknown_table = \<lparr>columns = [''x'', ''y''], data = [[CInt 1, CInt 2]]\<rparr>"

definition letter_year_budget_table :: dataframe where
  "letter_year_budget_table =
     \<lparr>columns = [''concepto'', ''b2020'', ''b2021'', ''presupuesto'', ''real''],
      data = [[CStr ''Ventas'', CInt 10, CInt 12, CInt 11, CInt 12]]\<rparr>"

definition letter_year_table :: dataframe where
  "letter_year_table =
     \<lparr>columns = [''concepto'', ''y2020'', ''y2021''],
      data = [[CStr ''Ventas'', CInt 10, CInt 12]]\<rparr>"

definition ledger_table_other_cells :: dataframe where
  "ledger_table_other_cells =
     \<lparr>columns = [''debe'', ''haber''],
      data = [[CNone, CStr ''fecha importe''], [CFloat NaN, CInt 7], [CStr ''a2020'', CNone]]\<rparr>"


section \<open>The separator rule in words\<close>

text \<open>
  The separator that occurs last in a text, the text with one separator kept as the
  decimal point and the other removed, and the test that a character lies within the
  last three characters of a text.
\<close>

definition is_separator :: "char \<Rightarrow> bool" where
  "is_separator c = (c = CHR '','' \<or> c = CHR ''.'')"

definition last_separator :: "string \<Rightarrow> char" where
  "last_separator s = last (filter is_separator s)"

definition with_decimal_separator :: "char \<Rightarrow> string \<Rightarrow> string" where
  "with_decimal_separator sep s =
     map (\<lambda>c. if c = sep then CHR ''.'' else c) (filter (\<lambda>c. c = sep \<or> \<not> is_separator c) s)"

definition in_last_three :: "char \<Rightarrow> string \<Rightarrow> bool" where
  "in_last_three c s = (c \<in> set (drop (length s - 3) s))"


text \<open>
  The text of a string or \<open>int\<close> cell, and the characters that \<open>float\<close> reads as a
  number once \<open>clean_numeric\<close> has prepared that text.
\<close>

fun cell_text :: "cell \<Rightarrow> string option" where
  "cell_text (CStr s) = Some s"
| "cell_text (CInt i) = Some (str_int i)"
| "cell_text c = None"

definition number_text :: "string \<Rightarrow> string" where
  "number_text u = filter (\<lambda>c. c \<noteq> CHR ''_'') (strip (fix_separators (strip_symbols u)))"


section \<open>The transformations in words\<close>












section \<open>The pipeline in words\<close>

text \<open>
  The year columns that the unpivot step works with (those of the rules, or else the
  columns of the table that the year pattern matches), whether the mapped debit and
  credit columns are columns of the table, and a state with one more warning; then the
  empty dicts, the inputs of the examples and the states that \<open>normalize\<close> reaches on
  them before the debit/credit step.
\<close>

definition resolved_year_cols :: "rules \<Rightarrow> dataframe \<Rightarrow> string list" where
  "resolved_year_cols rules d =
     (case rule_unpivot_year_columns rules of
        Val l \<Rightarrow> if l = [] then filter year_pattern (columns d) else l
      | _ \<Rightarrow> filter year_pattern (columns d))"

definition debit_credit_found :: "mapping \<Rightarrow> dataframe \<Rightarrow> bool" where
  "debit_credit_found mapping d =
     (usable (get (debit_column mapping)) (columns d)
      \<and> usable (get (credit_column mapping)) (columns d))"

definition add_warning :: "string \<Rightarrow> state \<Rightarrow> state" where
  "add_warning w st = st\<lparr>s_warnings := s_warnings st @ [w]\<rparr>"

definition no_mapping :: mapping where
  "no_mapping =
     \<lparr>date_column = Absent, amount_column = Absent, category_column = Absent,
      concept_column = Absent, budget_column = Absent, actual_column = Absent,
      debit_column = Absent, credit_column = Absent\<rparr>"

definition no_rules :: rules where
  "no_rules =
     \<lparr>rule_unpivot = Absent, rule_unpivot_year_columns = Absent, rule_debe_haber = Absent,
      rule_invert_negatives = Absent, rule_detect_format = Absent,
      rule_drop_empty_rows = Absent, rule_drop_empty_columns = Absent\<rparr>"

definition ventas_records :: "(string \<times> cell) list list" where
  "ventas_records =
     [[(''Concepto'', CStr ''Ventas''), (''a2020'', CStr ''1.000,00''),
       (''a2021'', CStr ''1.500,00'')]]"

definition ventas_mapping :: mapping where
  "ventas_mapping = no_mapping\<lparr>concept_column := Val ''concepto''\<rparr>"

definition ventas_rules :: rules where
  "ventas_rules =
     no_rules\<lparr>rule_unpivot := Val True,
              rule_unpivot_year_columns := Val [''a2020'', ''a2021'']\<rparr>"

definition ventas_result :: result where
  "ventas_result =
     \<lparr>res_normalized_data =
        [[(''concepto'', CStr ''Ventas''), (anio, CStr ''2020''),
          (''importe'', CFloat (decimal 10000 1))],
         [(''concepto'', CStr ''Ventas''), (anio, CStr ''2021''),
          (''importe'', CFloat (decimal 15000 1))]],
      res_format_detected = ''transactional'',
      res_confidence = decimal 63 2,
      res_warnings = [warn_two_years, warn_no_fecha],
      res_transformations_applied =
        [FormatDetected ''financial_statement'' (decimal 9 1), UnpivotApplied 2,
         Renamed [''concepto'']],
      res_columns = [''concepto'', anio, ''importe''],
      res_rows = 2\<rparr>"

definition statement_records :: "(string \<times> cell) list list" where
  "statement_records =
     [[(''concepto'', CStr ''Ventas''), (''a2020'', CStr ''1''), (''a2021'', CStr ''2'')]]"

definition plain_records :: "(string \<times> cell) list list" where
  "plain_records = [[(''concepto'', CStr ''Ventas''), (''total'', CStr ''1'')]]"

definition item_records :: "(string \<times> cell) list list" where
  "item_records = [[(''partida'', CStr ''Ventas''), (''a2020'', CStr ''1''), (''a2021'', CStr ''2'')]]"

definition ask_both :: rules where
  "ask_both = no_rules\<lparr>rule_debe_haber := Val True, rule_unpivot := Val True\<rparr>"

definition unknown_state :: "dataframe \<Rightarrow> state" where
  "unknown_state d =
     \<lparr>s_df = d, s_warnings = [warn_unknown],
      s_transformations = [FormatDetected ''unknown'' (Fin 0)],
      s_format_detected = ''unknown'', s_confidence = Fin 0\<rparr>"

definition item_start :: state where
  "item_start =
     unknown_state \<lparr>columns = [''partida'', ''a2020'', ''a2021''],
                     data = [[CStr ''Ventas'', CStr ''1'', CStr ''2'']]\<rparr>"

definition plain_start :: state where
  "plain_start =
     unknown_state \<lparr>columns = [''concepto'', ''total''], data = [[CStr ''Ventas'', CStr ''1'']]\<rparr>"

definition item_state :: state where
  "item_state = add_warning warn_debe_haber_missing item_start"

definition plain_state :: state where
  "plain_state = add_warning warn_debe_haber_missing plain_start"

definition unpivot_only :: rules where
  "unpivot_only = no_rules\<lparr>rule_unpivot := Val True\<rparr>"


section \<open>Properties of detect\_format\<close>

lemma strip_last_not_space: "strip s \<noteq> [] \<Longrightarrow> \<not> isspace (last (strip s))"
proof -
  assume ne: "strip s \<noteq> []"
  let ?u = "dropWhile isspace (rev (dropWhile isspace s))"
  have u: "?u \<noteq> []" using ne by (simp add: strip_def)
  then have "\<not> isspace (hd ?u)" by (rule hd_dropWhile)
  moreover have "last (strip s) = hd ?u"
    using u by (simp add: strip_def last_rev)
  ultimately show ?thesis by simp
qed

lemma four_digits_exact:
  assumes "r = [] \<or> last r \<noteq> CHR 0x0A"
  shows "four_digits r = exactly_four_digits r"
proof (cases "length r \<le> 4")
  case True
  then show ?thesis by (auto simp: four_digits_def exactly_four_digits_def)
next
  case False
  then have lt: "4 < length r" by simp
  have "drop 4 r \<noteq> [CHR 0x0A]"
  proof
    assume e: "drop 4 r = [CHR 0x0A]"
    have "last (drop 4 r) = last r" using lt by (rule last_drop)
    moreover have "last (drop 4 r) = CHR 0x0A" by (simp add: e)
    ultimately have "last r = CHR 0x0A" by simp
    then show False using assms lt by auto
  qed
  moreover have "drop 4 r \<noteq> []" using lt by simp
  ultimately show ?thesis using lt by (simp add: four_digits_def exactly_four_digits_def)
qed

lemma year_pattern_in_words:
  assumes "c = [] \<or> \<not> isspace (last c)"
  shows "year_pattern c = year_like_a c"
proof (cases c)
  case Nil
  then show ?thesis by (simp add: year_pattern_def year_like_a_def exactly_four_digits_def)
next
  case (Cons x xs)
  have nl: "isspace (CHR 0x0A)" by (simp add: isspace_def)
  have lc: "last c \<noteq> CHR 0x0A" using assms Cons nl by auto
  then have c4: "four_digits c = exactly_four_digits c" by (simp add: four_digits_exact)
  have "xs = [] \<or> last xs \<noteq> CHR 0x0A" using lc Cons by auto
  then have x4: "four_digits xs = exactly_four_digits xs" by (rule four_digits_exact)
  have na: "\<not> exactly_four_digits (CHR ''a'' # xs)"
    by (simp add: exactly_four_digits_def is_digit_def)
  show ?thesis
    using Cons c4 x4 na by (auto simp: year_pattern_def year_like_a_def)
qed

lemma year_cols_in_words:
  "filter year_pattern (cols_lower df) = filter year_like_a (cols_lower df)"
proof (rule filter_cong [OF refl])
  fix c assume "c \<in> set (cols_lower df)"
  then obtain t where "c = strip t" by (auto simp: cols_lower_def)
  then have "c = [] \<or> \<not> isspace (last c)" using strip_last_not_space by auto
  then show "year_pattern c = year_like_a c" by (rule year_pattern_in_words)
qed

text \<open>
  C1 as stated fails: with \<open>b2020\<close> and \<open>b2021\<close>, which the glossary of the
  specification counts as year-like, a table that has a concept term, a budget term
  and an actual term satisfies rule (1) and rule (2) and is classified \<open>budget\<close>; and
  the table \<open>concepto, y2020, y2021\<close> satisfies rule (1) and is classified \<open>unknown\<close>.
\<close>

theorem detect_format_letter_counterexample:
  "2 \<le> n_year_like letter_year_budget_table
   \<and> has_term concept_terms letter_year_budget_table
   \<and> rule_budget letter_year_budget_table
   \<and> detect_format letter_year_budget_table = (''budget'', decimal 95 2, [])
   \<and> 2 \<le> n_year_like letter_year_table
   \<and> has_term concept_terms letter_year_table
   \<and> detect_format letter_year_table = (''unknown'', Fin 0, [warn_unknown])"
proof (intro conjI)
  show "2 \<le> n_year_like letter_year_budget_table" by code_simp
  show "has_term concept_terms letter_year_budget_table" by code_simp
  show "rule_budget letter_year_budget_table" by code_simp
  show "detect_format letter_year_budget_table = (''budget'', decimal 95 2, [])" by code_simp
  show "2 \<le> n_year_like letter_year_table" by code_simp
  show "has_term concept_terms letter_year_table" by code_simp
  show "detect_format letter_year_table = (''unknown'', Fin 0, [warn_unknown])" by code_simp
qed

text \<open>
  C1, amended. With a year-like column read as a name of exactly four digits after an
  optional leading letter \<open>a\<close>, \<open>detect_format\<close> classifies a table by the first rule
  that matches, in the order: (1) two or more year-like columns and a concept term:
  \<open>financial_statement\<close>, 0.9, with the two-years warning exactly when fewer than three
  year-like columns are present; (2) a budget term, an actual term and a category or
  concept term: \<open>budget\<close>, 0.95; (3) a date term and an amount term: \<open>transactional\<close>,
  0.85, with a warning exactly when no category term is present; (4) a debit term and
  a credit term: \<open>transactional\<close>, 0.8, with the conversion warning; (5) otherwise
  \<open>unknown\<close>, 0.0, with the could-not-determine warning. A table that satisfies both
  rule (1) and rule (2) is a \<open>financial_statement\<close>.
\<close>

theorem detect_format_priority:
  "(rule_statement df \<longrightarrow>
      detect_format df =
        (''financial_statement'', decimal 9 1,
         if n_year_cols df < 3 then [warn_two_years] else []))
   \<and> (\<not> rule_statement df \<and> rule_budget df \<longrightarrow>
      detect_format df = (''budget'', decimal 95 2, []))
   \<and> (\<not> rule_statement df \<and> \<not> rule_budget df \<and> rule_dated df \<longrightarrow>
      detect_format df =
        (''transactional'', decimal 85 2,
         if has_term category_terms df then [] else [warn_no_category]))
   \<and> (\<not> rule_statement df \<and> \<not> rule_budget df \<and> \<not> rule_dated df \<and> rule_ledger df \<longrightarrow>
      detect_format df = (''transactional'', decimal 8 1, [warn_debe_haber_format]))
   \<and> (\<not> rule_statement df \<and> \<not> rule_budget df \<and> \<not> rule_dated df \<and> \<not> rule_ledger df \<longrightarrow>
      detect_format df = (''unknown'', Fin 0, [warn_unknown]))
   \<and> (rule_statement df \<and> rule_budget df \<longrightarrow>
      fst (detect_format df) = ''financial_statement'')"
  unfolding rule_statement_def rule_budget_def rule_dated_def rule_ledger_def
    n_year_cols_def has_term_def detect_format_def Let_def year_cols_in_words
  by simp

theorem detect_format_priority_witness:
  "rule_statement statement_and_budget_table \<and> rule_budget statement_and_budget_table
   \<and> detect_format statement_and_budget_table =
       (''financial_statement'', decimal 9 1, [warn_two_years])
   \<and> rule_statement three_year_table
   \<and> detect_format three_year_table = (''financial_statement'', decimal 9 1, [])
   \<and> \<not> rule_statement budget_table \<and> rule_budget budget_table
   \<and> detect_format budget_table = (''budget'', decimal 95 2, [])
   \<and> \<not> rule_statement dated_table \<and> \<not> rule_budget dated_table \<and> rule_dated dated_table
   \<and> detect_format dated_table = (''transactional'', decimal 85 2, [warn_no_category])
   \<and> \<not> rule_statement ledger_table \<and> \<not> rule_budget ledger_table
   \<and> \<not> rule_dated ledger_table \<and> rule_ledger ledger_table
   \<and> detect_format ledger_table = (''transactional'', decimal 8 1, [warn_debe_haber_format])
   \<and> \<not> rule_statement unknown_table \<and> \<not> rule_budget unknown_table
   \<and> \<not> rule_dated unknown_table \<and> \<not> rule_ledger unknown_table
   \<and> detect_format unknown_table = (''unknown'', Fin 0, [warn_unknown])"
proof -
  have h1: "rule_statement statement_and_budget_table \<and> rule_budget statement_and_budget_table
            \<and> n_year_cols statement_and_budget_table < 3"
    by code_simp
  have h2: "rule_statement three_year_table \<and> \<not> n_year_cols three_year_table < 3"
    by code_simp
  have h3: "\<not> rule_statement budget_table \<and> rule_budget budget_table"
    by code_simp
  have h4: "\<not> rule_statement dated_table \<and> \<not> rule_budget dated_table \<and> rule_dated dated_table
            \<and> \<not> has_term category_terms dated_table"
    by code_simp
  have h5: "\<not> rule_statement ledger_table \<and> \<not> rule_budget ledger_table
            \<and> \<not> rule_dated ledger_table \<and> rule_ledger ledger_table"
    by code_simp
  have h6: "\<not> rule_statement unknown_table \<and> \<not> rule_budget unknown_table
            \<and> \<not> rule_dated unknown_table \<and> \<not> rule_ledger unknown_table"
    by code_simp
  show ?thesis
    using h1 h2 h3 h4 h5 h6
      detect_format_priority [of statement_and_budget_table]
      detect_format_priority [of three_year_table]
      detect_format_priority [of budget_table]
      detect_format_priority [of dated_table]
      detect_format_priority [of ledger_table]
      detect_format_priority [of unknown_table]
    by simp
qed

text \<open>
  C9. \<open>detect_format\<close> depends on the column names only: two tables with the same list
  of column names get the same format, confidence and warnings, whatever their cells
  and however many rows they have.
\<close>

theorem detect_format_columns_only:
  "columns df1 = columns df2 \<Longrightarrow> detect_format df1 = detect_format df2"
  unfolding detect_format_def cols_lower_def by simp

theorem detect_format_columns_only_witness:
  "columns ledger_table = columns ledger_table_other_cells
   \<and> data ledger_table \<noteq> data ledger_table_other_cells
   \<and> detect_format ledger_table = detect_format ledger_table_other_cells"
proof -
  have h: "columns ledger_table = columns ledger_table_other_cells"
    by (simp add: ledger_table_def ledger_table_other_cells_def)
  have d: "data ledger_table \<noteq> data ledger_table_other_cells"
    by (simp add: ledger_table_def ledger_table_other_cells_def)
  show ?thesis
    using h d detect_format_columns_only [OF h] by simp
qed


section \<open>Properties of clean\_numeric\<close>

lemma filter_dropWhile_disjoint:
  "(\<And>x. Q x \<Longrightarrow> \<not> P x) \<Longrightarrow> filter Q (dropWhile P xs) = filter Q xs"
  by (induction xs) auto

lemma filter_strip:
  assumes "\<And>x. Q x \<Longrightarrow> \<not> isspace x"
  shows "filter Q (strip s) = filter Q s"
proof -
  have "filter Q (strip s) = rev (filter Q (dropWhile isspace (rev (dropWhile isspace s))))"
    by (simp add: strip_def rev_filter)
  also have "\<dots> = rev (filter Q (rev (dropWhile isspace s)))"
    using assms by (simp add: filter_dropWhile_disjoint)
  also have "\<dots> = filter Q (dropWhile isspace s)"
    by (simp add: rev_filter)
  also have "\<dots> = filter Q s"
    using assms by (simp add: filter_dropWhile_disjoint)
  finally show ?thesis .
qed

lemma separator_not_space: "is_separator x \<Longrightarrow> \<not> isspace x"
  by (auto simp: is_separator_def isspace_def)

lemma filter_separator_strip_symbols:
  "filter is_separator (strip_symbols s) = filter is_separator s"
proof -
  have "filter is_separator (strip_symbols s) = filter is_separator (strip s)"
    unfolding strip_symbols_def filter_filter
    by (rule filter_cong) (auto simp: is_separator_def isspace_def)
  then show ?thesis
    by (simp add: filter_strip separator_not_space)
qed

lemma separator_mem_strip_symbols:
  "is_separator c \<Longrightarrow> c \<in> set (strip_symbols s) \<longleftrightarrow> c \<in> set s"
proof -
  assume c: "is_separator c"
  have "c \<in> set (strip_symbols s) \<longleftrightarrow> c \<in> set (filter is_separator (strip_symbols s))"
    using c by simp
  also have "\<dots> \<longleftrightarrow> c \<in> set (filter is_separator s)"
    by (simp only: filter_separator_strip_symbols)
  also have "\<dots> \<longleftrightarrow> c \<in> set s"
    using c by simp
  finally show ?thesis .
qed

lemma takeWhile_race:
  "CHR '','' \<in> set xs \<Longrightarrow> CHR ''.'' \<in> set xs \<Longrightarrow>
   (length (takeWhile (\<lambda>x. x \<noteq> CHR '','') xs) < length (takeWhile (\<lambda>x. x \<noteq> CHR ''.'') xs))
     = (hd (filter is_separator xs) = CHR '','')"
  by (induction xs) (auto simp: is_separator_def)

lemma rfind_race:
  assumes "CHR '','' \<in> set t" and "CHR ''.'' \<in> set t"
  shows "(rfind (CHR ''.'') t < rfind (CHR '','') t) = (last_separator t = CHR '','')"
proof -
  have "(rfind (CHR ''.'') t < rfind (CHR '','') t)
        = (length (takeWhile (\<lambda>x. x \<noteq> CHR '','') (rev t))
             < length (takeWhile (\<lambda>x. x \<noteq> CHR ''.'') (rev t)))"
    using assms by (auto simp: rfind_def)
  also have "\<dots> = (hd (filter is_separator (rev t)) = CHR '','')"
    using assms by (simp add: takeWhile_race)
  also have "\<dots> = (last_separator t = CHR '','')"
    by (simp add: last_separator_def rev_filter [symmetric] hd_rev)
  finally show ?thesis .
qed

lemma last_separator_cases:
  "CHR '','' \<in> set t \<Longrightarrow> last_separator t = CHR '','' \<or> last_separator t = CHR ''.''"
proof -
  assume "CHR '','' \<in> set t"
  then have ne: "filter is_separator t \<noteq> []"
    by (auto simp: filter_empty_conv is_separator_def)
  then have "last (filter is_separator t) \<in> set (filter is_separator t)"
    by (rule last_in_set)
  then show ?thesis by (auto simp: last_separator_def is_separator_def)
qed

lemma replace_comma_decimal:
  "replace (CHR '','') ''.'' (replace (CHR ''.'') [] t) = with_decimal_separator (CHR '','') t"
  by (induction t) (auto simp: replace_def with_decimal_separator_def is_separator_def)

lemma replace_dot_decimal:
  "replace (CHR '','') [] t = with_decimal_separator (CHR ''.'') t"
  by (induction t) (auto simp: replace_def with_decimal_separator_def is_separator_def)

lemma replace_comma_filter:
  "replace (CHR '','') [] t = filter (\<lambda>c. c \<noteq> CHR '','') t"
  by (induction t) (auto simp: replace_def)

lemma replace_absent: "c \<notin> set t \<Longrightarrow> replace c new t = t"
  by (induction t) (auto simp: replace_def)

lemma takeWhile_short:
  "c \<in> set xs \<Longrightarrow> (length (takeWhile (\<lambda>x. x \<noteq> c) xs) < k) = (c \<in> set (take k xs))"
proof (induction xs arbitrary: k)
  case Nil
  then show ?case by simp
next
  case (Cons x xs k)
  show ?case
  proof (cases k)
    case 0
    then show ?thesis by simp
  next
    case (Suc j)
    show ?thesis
    proof (cases "x = c")
      case True
      then show ?thesis using Suc by simp
    next
      case False
      then have "c \<in> set xs" using Cons.prems by simp
      then show ?thesis using Cons.IH [of j] Suc False by simp
    qed
  qed
qed

lemma rfind_last_three:
  assumes "c \<in> set t"
  shows "(int (length t) - 4 < rfind c t) = in_last_three c t"
proof -
  have "(int (length t) - 4 < rfind c t) = (length (takeWhile (\<lambda>x. x \<noteq> c) (rev t)) < 3)"
    using assms by (auto simp: rfind_def)
  also have "\<dots> = (c \<in> set (take 3 (rev t)))"
    using assms by (simp add: takeWhile_short)
  also have "\<dots> = in_last_three c t"
    by (simp add: in_last_three_def take_rev)
  finally show ?thesis .
qed

lemma fix_separators_both:
  assumes "CHR '','' \<in> set t" and "CHR ''.'' \<in> set t"
  shows "fix_separators t = with_decimal_separator (last_separator t) t"
proof (cases "last_separator t = CHR '',''")
  case True
  then show ?thesis
    using assms by (simp add: fix_separators_def rfind_race replace_comma_decimal)
next
  case False
  then have "last_separator t = CHR ''.''"
    using last_separator_cases [OF assms(1)] by simp
  then show ?thesis
    using assms False by (simp add: fix_separators_def rfind_race replace_dot_decimal)
qed

lemma fix_separators_comma_only:
  assumes "CHR '','' \<in> set t" and "CHR ''.'' \<notin> set t"
  shows "fix_separators t =
           (if in_last_three (CHR '','') t then with_decimal_separator (CHR '','') t
            else filter (\<lambda>c. c \<noteq> CHR '','') t)"
proof -
  have "with_decimal_separator (CHR '','') t = replace (CHR '','') ''.'' t"
    using assms(2) replace_comma_decimal [of t] by (simp add: replace_absent)
  then show ?thesis
    using assms by (simp add: fix_separators_def rfind_last_three replace_comma_filter)
qed

lemma clean_numeric_CStr:
  "s \<noteq> [] \<Longrightarrow> clean_numeric (CStr s) = try_float (fix_separators (strip_symbols s))"
  by (simp add: clean_numeric_def)

lemma sep_facts: "is_separator (CHR '','')" "is_separator (CHR ''.'')"
  by (simp_all add: is_separator_def)

text \<open>
  C2 as stated fails: in \<open>12,5 $\<close> only the comma occurs and it does not lie within
  the last three characters of the string, yet it is taken as the decimal separator
  and the result is 12.5, not the 125.0 that the string gives with its comma removed.
\<close>

theorem clean_numeric_last_three_counterexample:
  "CHR '','' \<in> set ''12,5 $'' \<and> CHR ''.'' \<notin> set ''12,5 $''
   \<and> \<not> in_last_three (CHR '','') ''12,5 $''
   \<and> clean_numeric (CStr ''12,5 $'') = Inr (decimal 125 1)
   \<and> clean_numeric (CStr (filter (\<lambda>c. c \<noteq> CHR '','') ''12,5 $'')) = Inr (decimal 1250 1)
   \<and> decimal 125 1 \<noteq> decimal 1250 1"
proof (intro conjI)
  show "CHR '','' \<in> set ''12,5 $''" by simp
  show "CHR ''.'' \<notin> set ''12,5 $''" by simp
  show "\<not> in_last_three (CHR '','') ''12,5 $''" by code_simp
  show "clean_numeric (CStr ''12,5 $'') = Inr (decimal 125 1)" by code_simp
  show "clean_numeric (CStr (filter (\<lambda>c. c \<noteq> CHR '','') ''12,5 $'')) = Inr (decimal 1250 1)"
    by code_simp
  show "decimal 125 1 \<noteq> decimal 1250 1" by code_simp
qed

text \<open>
  C2, amended. When both \<open>,\<close> and \<open>.\<close> occur in the input, \<open>clean_numeric\<close> takes the
  one that occurs last as the decimal separator and removes the other; when only \<open>,\<close>
  occurs, the comma is the decimal separator exactly when it lies within the last
  three characters of the text that is left once the input is trimmed and freed of
  currency symbols and whitespace, and is removed otherwise. So \<open>1.234,56\<close> and
  \<open>1,234.56\<close> both give 1234.56, \<open>1,234\<close> gives 1234.0 and \<open>12,5\<close> gives 12.5.
\<close>

theorem clean_numeric_separators:
  "(CHR '','' \<in> set s \<and> CHR ''.'' \<in> set s \<longrightarrow>
      clean_numeric (CStr s)
        = try_float (with_decimal_separator (last_separator s) (strip_symbols s)))
   \<and> (CHR '','' \<in> set s \<and> CHR ''.'' \<notin> set s \<longrightarrow>
      clean_numeric (CStr s)
        = try_float (if in_last_three (CHR '','') (strip_symbols s)
                     then with_decimal_separator (CHR '','') (strip_symbols s)
                     else filter (\<lambda>c. c \<noteq> CHR '','') (strip_symbols s)))
   \<and> clean_numeric (CStr ''1.234,56'') = Inr (decimal 123456 2)
   \<and> clean_numeric (CStr ''1,234.56'') = Inr (decimal 123456 2)
   \<and> clean_numeric (CStr ''1,234'') = Inr (decimal 12340 1)
   \<and> clean_numeric (CStr ''12,5'') = Inr (decimal 125 1)"
proof (intro conjI impI)
  assume a: "CHR '','' \<in> set s \<and> CHR ''.'' \<in> set s"
  then have ne: "s \<noteq> []" by auto
  have t: "CHR '','' \<in> set (strip_symbols s)" "CHR ''.'' \<in> set (strip_symbols s)"
    using a by (simp_all add: separator_mem_strip_symbols sep_facts)
  have "last_separator (strip_symbols s) = last_separator s"
    by (simp add: last_separator_def filter_separator_strip_symbols)
  then show "clean_numeric (CStr s)
        = try_float (with_decimal_separator (last_separator s) (strip_symbols s))"
    using fix_separators_both [OF t] ne by (simp add: clean_numeric_CStr)
next
  assume a: "CHR '','' \<in> set s \<and> CHR ''.'' \<notin> set s"
  then have ne: "s \<noteq> []" by auto
  have t: "CHR '','' \<in> set (strip_symbols s)" "CHR ''.'' \<notin> set (strip_symbols s)"
    using a by (simp_all add: separator_mem_strip_symbols sep_facts)
  show "clean_numeric (CStr s)
        = try_float (if in_last_three (CHR '','') (strip_symbols s)
                     then with_decimal_separator (CHR '','') (strip_symbols s)
                     else filter (\<lambda>c. c \<noteq> CHR '','') (strip_symbols s))"
    using fix_separators_comma_only [OF t] ne by (simp add: clean_numeric_CStr)
next
  show "clean_numeric (CStr ''1.234,56'') = Inr (decimal 123456 2)" by code_simp
next
  show "clean_numeric (CStr ''1,234.56'') = Inr (decimal 123456 2)" by code_simp
next
  show "clean_numeric (CStr ''1,234'') = Inr (decimal 12340 1)" by code_simp
next
  show "clean_numeric (CStr ''12,5'') = Inr (decimal 125 1)" by code_simp
qed

theorem clean_numeric_separators_witness:
  "CHR '','' \<in> set ''$ 1.234,56'' \<and> CHR ''.'' \<in> set ''$ 1.234,56''
   \<and> clean_numeric (CStr ''$ 1.234,56'')
       = try_float (with_decimal_separator (last_separator ''$ 1.234,56'')
                      (strip_symbols ''$ 1.234,56''))
   \<and> CHR '','' \<in> set ''12,5 '' \<and> CHR ''.'' \<notin> set ''12,5 ''
   \<and> clean_numeric (CStr ''12,5 '')
       = try_float (if in_last_three (CHR '','') (strip_symbols ''12,5 '')
                    then with_decimal_separator (CHR '','') (strip_symbols ''12,5 '')
                    else filter (\<lambda>c. c \<noteq> CHR '','') (strip_symbols ''12,5 ''))"
proof -
  have h1: "CHR '','' \<in> set ''$ 1.234,56'' \<and> CHR ''.'' \<in> set ''$ 1.234,56''"
    by simp
  have h2: "CHR '','' \<in> set ''12,5 '' \<and> CHR ''.'' \<notin> set ''12,5 ''"
    by simp
  show ?thesis
    using h1 h2 clean_numeric_separators [of "''$ 1.234,56''"]
      clean_numeric_separators [of "''12,5 ''"]
    by blast
qed


lemma round_ratio_not_NaN: "round_ratio a b \<noteq> NaN"
  by (simp add: round_ratio_def Let_def)

lemma strtod_not_NaN: "strtod u = Some x \<Longrightarrow> x \<noteq> NaN"
  by (auto simp: strtod_def scale10_def Let_def round_ratio_not_NaN
      split: prod.splits if_splits option.splits)

lemma dropWhile_none: "(\<And>x. x \<in> set xs \<Longrightarrow> \<not> P x) \<Longrightarrow> dropWhile P xs = xs"
  by (cases xs) simp_all

lemma float_space_isspace: "float_space c \<Longrightarrow> isspace c"
  by (auto simp: float_space_def isspace_def)

lemma strip_twice_none:
  assumes "\<And>c. c \<in> set t \<Longrightarrow> \<not> P c"
  shows "rev (dropWhile P (rev (dropWhile P t))) = t"
proof -
  have a: "dropWhile P t = t" using assms by (rule dropWhile_none)
  have "\<And>c. c \<in> set (rev t) \<Longrightarrow> \<not> P c" using assms by simp
  then have b: "dropWhile P (rev t) = rev t" by (rule dropWhile_none)
  show ?thesis by (simp only: a b rev_rev_ident)
qed

lemma strips_no_space:
  assumes "\<And>c. c \<in> set t \<Longrightarrow> \<not> isspace c"
  shows "strip t = t" and "float_strip t = t"
proof -
  show "strip t = t"
    unfolding strip_def using assms by (rule strip_twice_none)
  have "\<And>c. c \<in> set t \<Longrightarrow> \<not> float_space c"
    using assms float_space_isspace by blast
  then show "float_strip t = t"
    unfolding float_strip_def by (rule strip_twice_none)
qed

lemma set_replace: "set (replace c new t) \<subseteq> set t \<union> set new"
  by (auto simp: replace_def split: if_splits)

lemma set_fix_separators: "set (fix_separators t) \<subseteq> set t \<union> {CHR ''.''}"
proof -
  have a: "set (replace (CHR '','') ''.'' (replace (CHR ''.'') [] t)) \<subseteq> set t \<union> {CHR ''.''}"
    using set_replace [of "CHR '',''" "''.''" "replace (CHR ''.'') [] t"]
      set_replace [of "CHR ''.''" "[]" t] by auto
  have b: "set (replace (CHR '','') [] t) \<subseteq> set t \<union> {CHR ''.''}"
    using set_replace [of "CHR '',''" "[]" t] by auto
  have c: "set (replace (CHR '','') ''.'' t) \<subseteq> set t \<union> {CHR ''.''}"
    using set_replace [of "CHR '',''" "''.''" t] by auto
  have d: "set t \<subseteq> set t \<union> {CHR ''.''}" by auto
  show ?thesis
    unfolding fix_separators_def Let_def
    using a b c d by (auto split: if_split)
qed

lemma prepared_no_space:
  assumes "c \<in> set (fix_separators (strip_symbols u))"
  shows "\<not> isspace c"
proof -
  have t: "\<And>x. x \<in> set (strip_symbols u) \<Longrightarrow> \<not> isspace x"
    by (simp add: strip_symbols_def)
  have dot: "\<not> isspace (CHR ''.'')" by (simp add: isspace_def)
  show ?thesis using assms t dot set_fix_separators [of "strip_symbols u"] by auto
qed

lemma try_float_cases:
  "try_float (fix_separators (strip_symbols u)) = Inr x \<Longrightarrow>
     x = Fin 0 \<or> parse_inf_or_nan (number_text u) = Some x \<or> strtod (number_text u) = Some x"
proof -
  let ?t = "fix_separators (strip_symbols u)"
  assume a: "try_float ?t = Inr x"
  have s1: "strip ?t = ?t"
    by (rule strips_no_space(1)) (rule prepared_no_space)
  have s2: "float_strip ?t = ?t"
    by (rule strips_no_space(2)) (rule prepared_no_space)
  have "py_float ?t = Inr x \<or> x = Fin 0"
    using a by (auto simp: try_float_def split: sum.splits)
  then show ?thesis
    unfolding number_text_def s1
    by (auto simp: py_float_def s2 Let_def split: if_splits option.splits)
qed

lemma try_float_error: "py_float t = Inl e \<Longrightarrow> try_float t = Inr (Fin 0)"
  by (simp add: try_float_def)

text \<open>
  C6 fails in the code: handed a list of two cells, or an \<open>int\<close> of 4301 digits,
  \<open>clean_numeric\<close> raises \<open>ValueError\<close> where the claim has it return 0.0. Both are raised
  on the lines that stand before the \<open>try\<close> block.
\<close>

theorem clean_numeric_raises:
  "clean_numeric_any (PyList (CInt 1) [CInt 2]) = Inl ValueError
   \<and> clean_numeric_any (PyScalar (CInt (10 ^ 4300))) = Inl ValueError"
proof
  show "clean_numeric_any (PyList (CInt 1) [CInt 2]) = Inl ValueError"
    by (simp add: clean_numeric_any_def)
  show "clean_numeric_any (PyScalar (CInt (10 ^ 4300))) = Inl ValueError"
    unfolding clean_numeric_any_def max_str_digits_def
    by (simp only: pyvalue.case cell.case abs_ge_self if_True)
qed

text \<open>Every other value of the model is taken to a float.\<close>

lemma clean_numeric_any_raises_only:
  assumes "clean_numeric_any v = Inl e"
  shows "(\<exists>x y ys. v = PyList x (y # ys))
         \<or> (\<exists>i. v = PyScalar (CInt i) \<and> 10 ^ max_str_digits \<le> \<bar>i\<bar>)"
proof (cases v)
  case (PyScalar c)
  have "clean_numeric c \<noteq> Inl e"
    by (cases c) (auto simp: clean_numeric_def try_float_def split: sum.splits)
  then show ?thesis
    using assms PyScalar by (cases c) (auto simp: clean_numeric_any_def split: if_splits)
next
  case (PyBool b)
  then show ?thesis
    using assms by (auto simp: clean_numeric_any_def try_float_def split: sum.splits)
next
  case (PyList x xs)
  then show ?thesis
    using assms by (cases xs) (auto simp: clean_numeric_any_def)
qed

text \<open>
  C8 as stated fails: the text \<open>nan\<close> gives NaN and the text \<open>-Infinity\<close> gives an
  infinity.
\<close>

theorem clean_numeric_nan_counterexample:
  "clean_numeric (CStr ''nan'') = Inr NaN \<and> \<not> isfinite NaN
   \<and> clean_numeric (CStr ''-Infinity'') = Inr NegInf \<and> \<not> isfinite NegInf"
proof (intro conjI)
  show "clean_numeric (CStr ''nan'') = Inr NaN" by code_simp
  show "clean_numeric (CStr ''-Infinity'') = Inr NegInf" by code_simp
qed (simp_all add: isfinite_def)

text \<open>
  C8, amended. \<open>clean_numeric\<close> returns 0.0 when \<open>float\<close> rejects the prepared text and
  for a NaN cell. Its result is finite unless the cell is itself an infinite float,
  or the prepared text spells \<open>nan\<close>, \<open>inf\<close> or \<open>infinity\<close> (any letter case, with an
  optional sign), or it is a decimal number that \<open>float\<close> rounds to an infinity.
\<close>

theorem clean_numeric_nonfinite:
  "(py_float (fix_separators (strip_symbols s)) = Inl e \<longrightarrow>
      clean_numeric (CStr s) = Inr (Fin 0))
   \<and> clean_numeric (CFloat NaN) = Inr (Fin 0)
   \<and> (clean_numeric v = Inr x \<and> \<not> isfinite x \<longrightarrow>
        v = CFloat x
        \<or> (\<exists>u. cell_text v = Some u
              \<and> (parse_inf_or_nan (number_text u) = Some x
                  \<or> (strtod (number_text u) = Some x \<and> x \<noteq> NaN))))"
proof (intro conjI impI)
  assume "py_float (fix_separators (strip_symbols s)) = Inl e"
  then show "clean_numeric (CStr s) = Inr (Fin 0)"
    by (simp add: clean_numeric_def try_float_error)
next
  show "clean_numeric (CFloat NaN) = Inr (Fin 0)"
    by (simp add: clean_numeric_def)
next
  assume a: "clean_numeric v = Inr x \<and> \<not> isfinite x"
  then have nz: "x \<noteq> Fin 0" by (auto simp: isfinite_def)
  show "v = CFloat x
        \<or> (\<exists>u. cell_text v = Some u
              \<and> (parse_inf_or_nan (number_text u) = Some x
                  \<or> (strtod (number_text u) = Some x \<and> x \<noteq> NaN)))"
  proof (cases v)
    case CNone
    then show ?thesis using a nz by (simp add: clean_numeric_def)
  next
    case (CStr s)
    then have "try_float (fix_separators (strip_symbols s)) = Inr x"
      using a nz by (simp add: clean_numeric_def split: if_splits)
    then show ?thesis
      using try_float_cases [of s x] nz CStr strtod_not_NaN
      by auto
  next
    case (CInt i)
    then have "try_float (fix_separators (strip_symbols (str_int i))) = Inr x"
      using a nz by (simp add: clean_numeric_def split: if_splits)
    then show ?thesis
      using try_float_cases [of "str_int i" x] nz CInt strtod_not_NaN
      by auto
  next
    case (CFloat f)
    then show ?thesis using a nz by (auto simp: clean_numeric_def split: if_splits)
  qed
qed

theorem clean_numeric_nonfinite_witness:
  "py_float (fix_separators (strip_symbols ''n/a'')) = Inl ValueError
   \<and> clean_numeric (CStr ''n/a'') = Inr (Fin 0)
   \<and> clean_numeric (CStr '' +NaN '') = Inr NaN \<and> \<not> isfinite NaN
   \<and> (CStr '' +NaN '' = CFloat NaN
       \<or> (\<exists>u. cell_text (CStr '' +NaN '') = Some u
             \<and> (parse_inf_or_nan (number_text u) = Some NaN
                 \<or> (strtod (number_text u) = Some NaN \<and> NaN \<noteq> NaN))))"
proof -
  have h1: "py_float (fix_separators (strip_symbols ''n/a'')) = Inl ValueError"
    by code_simp
  have h2: "clean_numeric (CStr '' +NaN '') = Inr NaN"
    by code_simp
  have h3: "\<not> isfinite NaN"
    by (simp add: isfinite_def)
  show ?thesis
    using h1 h2 h3 clean_numeric_nonfinite [of "''n/a''" ValueError "CStr '' +NaN ''" NaN]
    by blast
qed


section \<open>Frame operations\<close>






















lemma length_select:
  "length r = length cols \<Longrightarrow> length (select P cols r) = length (filter P cols)"
  unfolding select_def
  by (induction r cols rule: list_induct2) auto




section \<open>Properties of apply\_debe\_haber\<close>










section \<open>Properties of unpivot\_years\<close>
















section \<open>Properties of normalize\<close>

lemma normalize_ventas: "normalize ventas_records ventas_mapping ventas_rules = Inr ventas_result"
  by code_simp

text \<open>
  C3. \<open>normalize\<close> on the single row \<open>Concepto = Ventas, a2020 = 1.000,00,
  a2021 = 1.500,00\<close>, with unpivot asked for the two year columns and the concept
  column mapped to \<open>concepto\<close>, returns two rows, the format \<open>transactional\<close>, a column
  list holding the concept column, the year column and the amount column, and the
  amounts 1000.0 and 1500.0.
\<close>

theorem normalize_end_to_end:
  "normalize ventas_records ventas_mapping ventas_rules = Inr ventas_result
   \<and> res_rows ventas_result = 2
   \<and> res_format_detected ventas_result = ''transactional''
   \<and> ''concepto'' \<in> set (res_columns ventas_result)
   \<and> anio \<in> set (res_columns ventas_result)
   \<and> ''importe'' \<in> set (res_columns ventas_result)
   \<and> map (\<lambda>row. map_of row ''importe'') (res_normalized_data ventas_result)
       = [Some (CFloat (decimal 10000 1)), Some (CFloat (decimal 15000 1))]
   \<and> decimal 10000 1 = Fin 1000 \<and> decimal 15000 1 = Fin 1500"
proof (intro conjI)
  show "normalize ventas_records ventas_mapping ventas_rules = Inr ventas_result"
    by (rule normalize_ventas)
  show "decimal 10000 1 = Fin 1000" by code_simp
  show "decimal 15000 1 = Fin 1500" by code_simp
qed (simp_all add: ventas_result_def anio_def)

lemma step_debe_haber_skipped:
  "flag False (rule_debe_haber rules) \<Longrightarrow> \<not> debit_credit_found mapping (s_df st) \<Longrightarrow>
   step_debe_haber mapping rules st = Inr (add_warning warn_debe_haber_missing st)"
  by (auto simp: step_debe_haber_def debit_credit_found_def add_warning_def Let_def)

lemma step_unpivot_no_concept:
  "flag False (rule_unpivot rules) \<Longrightarrow> resolved_year_cols rules (s_df st) \<noteq> [] \<Longrightarrow>
   falsy (get (concept_column mapping)) \<Longrightarrow>
   find (any_term concept_terms) (columns (s_df st)) = None \<Longrightarrow>
   step_unpivot mapping rules st = Inr (add_warning warn_unpivot_no_concept st)"
proof -
  assume a: "flag False (rule_unpivot rules)" "resolved_year_cols rules (s_df st) \<noteq> []"
    "falsy (get (concept_column mapping))"
    "find (any_term concept_terms) (columns (s_df st)) = None"
  have nu: "\<not> usable (get (concept_column mapping)) (columns (s_df st))"
    using a(3) by (cases "get (concept_column mapping)") simp_all
  show ?thesis
    using a nu
    by (auto simp: step_unpivot_def resolved_year_cols_def Let_def add_warning_def
        split: entry.splits)
qed

lemma step_unpivot_no_years:
  "flag False (rule_unpivot rules) \<Longrightarrow> resolved_year_cols rules (s_df st) = [] \<Longrightarrow>
   step_unpivot mapping rules st = Inr st"
  by (auto simp: step_unpivot_def resolved_year_cols_def Let_def split: entry.splits)

lemma first_seen_empty: "first_seen seen ks = [] \<Longrightarrow> set ks \<subseteq> set seen"
  by (induction ks arbitrary: seen) (auto split: if_splits)

lemma before_debe_haber_returns:
  assumes "concat records \<noteq> []"
  shows "\<exists>st0. before_debe_haber records rules = Inr st0"
proof -
  have "concat (map (map fst) records) \<noteq> []"
    using assms by (simp add: map_concat [symmetric])
  then have "columns (DataFrame records) \<noteq> []"
    using first_seen_empty [of "[]" "concat (map (map fst) records)"]
    by (auto simp: DataFrame_def Let_def)
  then show ?thesis
    by (simp add: before_debe_haber_def init_state_def Let_def)
qed

text \<open>
  C7 as stated fails: with a concept column in the mapping that is no column of the
  table, and with no year column in the table, the unpivot step is skipped and no
  warning for it is appended; and on an input without any column, with the
  debit/credit step asked for and no debit or credit column, \<open>normalize\<close> raises before
  it reaches the step.
\<close>

theorem normalize_silent_skip_counterexample:
  "normalize statement_records (no_mapping\<lparr>concept_column := Val ''nombre''\<rparr>) unpivot_only
     = Inr \<lparr>res_normalized_data = statement_records,
            res_format_detected = ''financial_statement'',
            res_confidence = decimal 9 1,
            res_warnings = [warn_two_years],
            res_transformations_applied = [FormatDetected ''financial_statement'' (decimal 9 1)],
            res_columns = [''concepto'', ''a2020'', ''a2021''],
            res_rows = 1\<rparr>
   \<and> normalize plain_records no_mapping unpivot_only
     = Inr \<lparr>res_normalized_data = plain_records,
            res_format_detected = ''unknown'',
            res_confidence = Fin 0,
            res_warnings = [warn_unknown],
            res_transformations_applied = [FormatDetected ''unknown'' (Fin 0)],
            res_columns = [''concepto'', ''total''],
            res_rows = 1\<rparr>
   \<and> warn_unpivot_no_concept \<noteq> warn_two_years
   \<and> warn_unpivot_no_concept \<noteq> warn_unknown
   \<and> flag False (rule_debe_haber ask_both)
   \<and> normalize [] no_mapping ask_both = Inl AttributeError"
proof (intro conjI)
  show "normalize statement_records (no_mapping\<lparr>concept_column := Val ''nombre''\<rparr>) unpivot_only
     = Inr \<lparr>res_normalized_data = statement_records,
            res_format_detected = ''financial_statement'',
            res_confidence = decimal 9 1,
            res_warnings = [warn_two_years],
            res_transformations_applied = [FormatDetected ''financial_statement'' (decimal 9 1)],
            res_columns = [''concepto'', ''a2020'', ''a2021''],
            res_rows = 1\<rparr>"
    by code_simp
  show "normalize plain_records no_mapping unpivot_only
     = Inr \<lparr>res_normalized_data = plain_records,
            res_format_detected = ''unknown'',
            res_confidence = Fin 0,
            res_warnings = [warn_unknown],
            res_transformations_applied = [FormatDetected ''unknown'' (Fin 0)],
            res_columns = [''concepto'', ''total''],
            res_rows = 1\<rparr>"
    by code_simp
  show "warn_unpivot_no_concept \<noteq> warn_two_years" by code_simp
  show "warn_unpivot_no_concept \<noteq> warn_unknown" by code_simp
  show "flag False (rule_debe_haber ask_both)" by code_simp
  show "normalize [] no_mapping ask_both = Inl AttributeError" by code_simp
qed

text \<open>
  C7, amended. On an input that has at least one column, \<open>normalize\<close> reaches the
  debit/credit step. When that step is asked for and the mapped debit or credit column
  is not a column of the table, and when the unpivot step is asked for, year columns
  are found, the mapping gives no concept column and no column name holds a concept
  term, the step leaves the table as it is, appends its warning, and \<open>normalize\<close> goes
  on with the steps that follow. When the unpivot step is asked for and no year column
  is found, the step leaves the state as it is and \<open>normalize\<close> goes on.
\<close>

theorem normalize_skips_and_continues:
  "(concat records \<noteq> [] \<longrightarrow> (\<exists>st0. before_debe_haber records rules = Inr st0))
   \<and> (before_debe_haber records rules = Inr st0
        \<and> flag False (rule_debe_haber rules)
        \<and> \<not> debit_credit_found mapping (s_df st0) \<longrightarrow>
      normalize records mapping rules
        = after_debe_haber mapping rules (add_warning warn_debe_haber_missing st0))
   \<and> (flag False (rule_unpivot rules) \<and> resolved_year_cols rules (s_df st) \<noteq> []
        \<and> falsy (get (concept_column mapping))
        \<and> find (any_term concept_terms) (columns (s_df st)) = None \<longrightarrow>
      after_debe_haber mapping rules st
        = Inr (after_unpivot mapping rules (add_warning warn_unpivot_no_concept st)))
   \<and> (flag False (rule_unpivot rules) \<and> resolved_year_cols rules (s_df st) = [] \<longrightarrow>
      after_debe_haber mapping rules st = Inr (after_unpivot mapping rules st))
   \<and> s_df (add_warning w st) = s_df st
   \<and> s_warnings (add_warning w st) = s_warnings st @ [w]"
proof (intro conjI impI)
  assume "concat records \<noteq> []"
  then show "\<exists>st0. before_debe_haber records rules = Inr st0"
    by (rule before_debe_haber_returns)
next
  assume "before_debe_haber records rules = Inr st0
        \<and> flag False (rule_debe_haber rules)
        \<and> \<not> debit_credit_found mapping (s_df st0)"
  then show "normalize records mapping rules
        = after_debe_haber mapping rules (add_warning warn_debe_haber_missing st0)"
    by (simp add: normalize_def step_debe_haber_skipped)
next
  assume "flag False (rule_unpivot rules) \<and> resolved_year_cols rules (s_df st) \<noteq> []
        \<and> falsy (get (concept_column mapping))
        \<and> find (any_term concept_terms) (columns (s_df st)) = None"
  then show "after_debe_haber mapping rules st
        = Inr (after_unpivot mapping rules (add_warning warn_unpivot_no_concept st))"
    by (simp add: after_debe_haber_def step_unpivot_no_concept)
next
  assume "flag False (rule_unpivot rules) \<and> resolved_year_cols rules (s_df st) = []"
  then show "after_debe_haber mapping rules st = Inr (after_unpivot mapping rules st)"
    by (simp add: after_debe_haber_def step_unpivot_no_years)
qed (simp_all add: add_warning_def)

theorem normalize_skips_and_continues_witness:
  "concat item_records \<noteq> []
   \<and> before_debe_haber item_records ask_both = Inr item_start
   \<and> flag False (rule_debe_haber ask_both)
   \<and> \<not> debit_credit_found no_mapping (s_df item_start)
   \<and> normalize item_records no_mapping ask_both = after_debe_haber no_mapping ask_both item_state
   \<and> flag False (rule_unpivot ask_both) \<and> resolved_year_cols ask_both (s_df item_state) \<noteq> []
   \<and> falsy (get (concept_column no_mapping))
   \<and> find (any_term concept_terms) (columns (s_df item_state)) = None
   \<and> after_debe_haber no_mapping ask_both item_state
       = Inr (after_unpivot no_mapping ask_both (add_warning warn_unpivot_no_concept item_state))
   \<and> before_debe_haber plain_records ask_both = Inr plain_start
   \<and> resolved_year_cols ask_both (s_df plain_state) = []
   \<and> after_debe_haber no_mapping ask_both plain_state
       = Inr (after_unpivot no_mapping ask_both plain_state)
   \<and> map_sum id res_warnings (normalize item_records no_mapping ask_both)
       = Inr [warn_unknown, warn_debe_haber_missing, warn_unpivot_no_concept]
   \<and> map_sum id res_normalized_data (normalize item_records no_mapping ask_both)
       = Inr item_records"
proof -
  have h0: "concat item_records \<noteq> []" by (simp add: item_records_def)
  have h1: "flag False (rule_debe_haber ask_both)" by code_simp
  have h2: "before_debe_haber item_records ask_both = Inr item_start" by code_simp
  have h2': "\<not> debit_credit_found no_mapping (s_df item_start)" by code_simp
  have h3: "flag False (rule_unpivot ask_both)" by code_simp
  have h4: "resolved_year_cols ask_both (s_df item_state) \<noteq> []" by code_simp
  have h5: "falsy (get (concept_column no_mapping))" by code_simp
  have h6: "find (any_term concept_terms) (columns (s_df item_state)) = None" by code_simp
  have h7: "resolved_year_cols ask_both (s_df plain_state) = []" by code_simp
  have h8: "map_sum id res_warnings (normalize item_records no_mapping ask_both)
       = Inr [warn_unknown, warn_debe_haber_missing, warn_unpivot_no_concept]"
    by code_simp
  have h9: "map_sum id res_normalized_data (normalize item_records no_mapping ask_both)
       = Inr item_records"
    by code_simp
  have h10: "before_debe_haber plain_records ask_both = Inr plain_start" by code_simp
  show ?thesis
    using h0 h1 h2 h2' h3 h4 h5 h6 h7 h8 h9 h10
      normalize_skips_and_continues [of item_records ask_both item_start no_mapping item_state]
      normalize_skips_and_continues [of item_records ask_both item_start no_mapping plain_state]
    unfolding item_state_def [symmetric]
    by blast
qed

end
